theory Spec2Isabelle
  imports Main "HOL-Library.Char_ord" "HOL-Library.List_Lexorder"
begin

unbundle bit_operations_syntax

section \<open>Collaborators of the completion engine\<close>

subsection \<open>String helpers of the base library\<close>

text \<open>
  \<^verbatim>\<open>base::unquote\<close>, \<^verbatim>\<open>base::tolower\<close>, \<^verbatim>\<open>base::string_compare\<close>,
  \<^verbatim>\<open>base::same_string\<close> and \<^verbatim>\<open>base::split_by_set\<close> are declared in
  \<^verbatim>\<open>base/string_utilities.h\<close>; their bodies are not part of the files verified here, so the
  engine is modelled over a record that supplies them.
\<close>

record base_lib =
  unquote :: "string \<Rightarrow> string"
  tolower :: "string \<Rightarrow> string"
  string_compare :: "string \<Rightarrow> string \<Rightarrow> bool \<Rightarrow> int"
  same_string :: "string \<Rightarrow> string \<Rightarrow> bool"
  split_by_set :: "string \<Rightarrow> string \<Rightarrow> string list"

subsection \<open>Lexer, vocabulary and parser\<close>

text \<open>
  The token ids \<^verbatim>\<open>MySQLLexer::..._SYMBOL\<close> come from the generated lexer header. The names the
  engine mentions are collected in a datatype; their numeric values are given by the lexer
  (field \<open>tokenId\<close>), as are \<^verbatim>\<open>isIdentifier\<close> and \<^verbatim>\<open>determineQueryType\<close>.
\<close>

datatype MySQLLexerSymbol =
    DOT_SYMBOL | OPEN_PAR_SYMBOL | NOT_SYMBOL | NOT2_SYMBOL
  | CHAR_SYMBOL | NOW_SYMBOL | DAY_SYMBOL | DECIMAL_SYMBOL | DISTINCT_SYMBOL | COLUMNS_SYMBOL
  | FLOAT_SYMBOL | DOUBLE_SYMBOL | INT_SYMBOL | RELAY_THREAD_SYMBOL | SUBSTRING_SYMBOL
  | MID_SYMBOL | MEDIUMINT_SYMBOL | NDBCLUSTER_SYMBOL | REGEXP_SYMBOL | DATABASE_SYMBOL
  | DATABASES_SYMBOL | USER_SYMBOL | STD_SYMBOL | VARCHAR_SYMBOL | VARIANCE_SYMBOL
  | TINYINT_SYMBOL | SMALLINT_SYMBOL | BIGINT_SYMBOL | FRAC_SECOND_SYMBOL | SECOND_SYMBOL
  | MINUTE_SYMBOL | HOUR_SYMBOL | WEEK_SYMBOL | MONTH_SYMBOL | QUARTER_SYMBOL | YEAR_SYMBOL

datatype MySQLQueryType = QtUnknown | QtCreateTrigger | QtOther nat

record MySQLLexer =
  tokenId :: "MySQLLexerSymbol \<Rightarrow> int"
  isIdentifier :: "int \<Rightarrow> bool"
  determineQueryType :: MySQLQueryType

text \<open>A token of the parser's token stream, with the attributes the scanner reads.\<close>

record Token =
  tType :: int
  tText :: string
  tChannel :: nat
  tLine :: nat
  tColumn :: nat

text \<open>\<^verbatim>\<open>Token::INVALID_TYPE\<close> and \<^verbatim>\<open>Token::EOF\<close> of the ANTLR runtime (\<^verbatim>\<open>size_t\<close> values; token types
  and token ids are kept as integers).\<close>

definition INVALID_TYPE :: int where
  "INVALID_TYPE = 0"

definition EOF :: int where
  "EOF = 2 ^ 64 - 1"

definition eofToken :: Token where
  "eofToken = \<lparr>tType = EOF, tText = ''<EOF>'', tChannel = 0, tLine = 0, tColumn = 0\<rparr>"

section \<open>Token scanner\<close>

text \<open>
  Modelled from the spec: the class \<^verbatim>\<open>Scanner\<close> (\<^verbatim>\<open>parsers-common.h\<close>) is used by the
  completion engine but not defined in the files verified here. Its operations follow the
  description of the token scanner: a cursor over the pre-tokenized stream, moving by one token
  or by one token of the default channel, clamped at both ends, with a stack of saved
  positions. Reading outside the stream yields the EOF sentinel.
\<close>

record Scanner =
  scTokens :: "Token list"
  scIndex :: nat
  scStack :: "nat list"

definition tokenAt :: "Token list \<Rightarrow> nat \<Rightarrow> Token" where
  "tokenAt ts i = (if i < length ts then ts ! i else eofToken)"

definition newScanner :: "Token list \<Rightarrow> Scanner" where
  "newScanner ts = \<lparr>scTokens = ts, scIndex = 0, scStack = []\<rparr>"

definition tokenIndex :: "Scanner \<Rightarrow> nat" where
  "tokenIndex s = scIndex s"

definition tokenType :: "Scanner \<Rightarrow> int" where
  "tokenType s = tType (tokenAt (scTokens s) (scIndex s))"

definition tokenText :: "Scanner \<Rightarrow> string" where
  "tokenText s = tText (tokenAt (scTokens s) (scIndex s))"

definition tokenChannel :: "Scanner \<Rightarrow> nat" where
  "tokenChannel s = tChannel (tokenAt (scTokens s) (scIndex s))"

definition scanner_is :: "Scanner \<Rightarrow> int \<Rightarrow> bool" where
  "scanner_is s t = (tokenType s = t)"

function nextIndex :: "Token list \<Rightarrow> bool \<Rightarrow> nat \<Rightarrow> nat" where
  "nextIndex ts skipHidden i =
     (if Suc i < length ts
      then (if tChannel (tokenAt ts (Suc i)) = 0 \<or> \<not> skipHidden then Suc i
            else nextIndex ts skipHidden (Suc i))
      else i)"
  by pat_completeness auto
termination
  by (relation "measure (\<lambda>(ts, skipHidden, i). length ts - i)") auto

declare nextIndex.simps [simp del]

fun previousIndex :: "Token list \<Rightarrow> bool \<Rightarrow> nat \<Rightarrow> nat" where
  "previousIndex ts skipHidden 0 = 0"
| "previousIndex ts skipHidden (Suc i) =
     (if tChannel (tokenAt ts i) = 0 \<or> \<not> skipHidden then i
      else previousIndex ts skipHidden i)"

fun lookBackFrom :: "Token list \<Rightarrow> nat \<Rightarrow> int" where
  "lookBackFrom ts 0 = INVALID_TYPE"
| "lookBackFrom ts (Suc i) =
     (if tChannel (tokenAt ts i) = 0 then tType (tokenAt ts i) else lookBackFrom ts i)"

definition scanner_next :: "bool \<Rightarrow> Scanner \<Rightarrow> Scanner" where
  "scanner_next skipHidden s = s\<lparr>scIndex := nextIndex (scTokens s) skipHidden (scIndex s)\<rparr>"

definition scanner_previous :: "bool \<Rightarrow> Scanner \<Rightarrow> Scanner" where
  "scanner_previous skipHidden s =
     s\<lparr>scIndex := previousIndex (scTokens s) skipHidden (scIndex s)\<rparr>"

definition lookBack :: "Scanner \<Rightarrow> int" where
  "lookBack s = lookBackFrom (scTokens s) (scIndex s)"

definition push :: "Scanner \<Rightarrow> Scanner" where
  "push s = s\<lparr>scStack := scIndex s # scStack s\<rparr>"

definition pop :: "Scanner \<Rightarrow> Scanner" where
  "pop s = (case scStack s of [] \<Rightarrow> s | i # rest \<Rightarrow> s\<lparr>scIndex := i, scStack := rest\<rparr>)"

text \<open>
  \<open>advanceToPosition line column\<close>: the first token that starts at or after the coordinate;
  the last token when there is none.
\<close>

fun firstAtOrAfter :: "nat \<Rightarrow> nat \<Rightarrow> Token list \<Rightarrow> nat \<Rightarrow> nat option" where
  "firstAtOrAfter line column [] i = None"
| "firstAtOrAfter line column (t # ts) i =
     (if line < tLine t \<or> (line = tLine t \<and> column \<le> tColumn t) then Some i
      else firstAtOrAfter line column ts (Suc i))"

definition advanceToPosition :: "nat \<Rightarrow> nat \<Rightarrow> Scanner \<Rightarrow> Scanner" where
  "advanceToPosition line column s =
     (case firstAtOrAfter line column (scTokens s) 0 of
        Some i \<Rightarrow> s\<lparr>scIndex := i\<rparr>
      | None \<Rightarrow> s\<lparr>scIndex := length (scTokens s) - 1\<rparr>)"

section \<open>Qualifier analysis\<close>

subsection \<open>ObjectFlags\<close>

definition ShowSchemas :: int where "ShowSchemas = push_bit 0 1"
definition ShowTables :: int where "ShowTables = push_bit 1 1"
definition ShowColumns :: int where "ShowColumns = push_bit 2 1"
definition ShowFirst :: int where "ShowFirst = push_bit 3 1"
definition ShowSecond :: int where "ShowSecond = push_bit 4 1"

subsection \<open>determineQualifier\<close>

text \<open>
  The first half of \<^verbatim>\<open>determineQualifier\<close>: leave a hidden token, step back from a token that
  is neither identifier nor dot, then go left over at most one dot. The result is the scanner
  on the leading identifier, or on the dot when there is no leading identifier.
\<close>

definition seekQualifierStart :: "MySQLLexer \<Rightarrow> nat \<Rightarrow> Scanner \<Rightarrow> Scanner" where
  "seekQualifierStart lexer position scanner0 =
     (let scanner1 = (if tokenChannel scanner0 \<noteq> 0 then scanner_next True scanner0 else scanner0);
          scanner2 = (if \<not> scanner_is scanner1 (tokenId lexer DOT_SYMBOL)
                         \<and> \<not> isIdentifier lexer (tokenType scanner1)
                      then scanner_previous True scanner1 else scanner1)
      in if position > 0 then
           (let scanner3 = (if isIdentifier lexer (tokenType scanner2)
                               \<and> lookBack scanner2 = tokenId lexer DOT_SYMBOL
                            then scanner_previous True scanner2 else scanner2)
            in if scanner_is scanner3 (tokenId lexer DOT_SYMBOL)
                  \<and> isIdentifier lexer (lookBack scanner3)
               then scanner_previous True scanner3 else scanner3)
         else scanner2)"

text \<open>
  \<^verbatim>\<open>determineQualifier\<close> returns the flags; the qualifier (an output parameter) and the scanner
  (passed by reference) are returned with them.
\<close>

definition determineQualifier ::
  "base_lib \<Rightarrow> MySQLLexer \<Rightarrow> Scanner \<Rightarrow> nat \<Rightarrow> int \<times> string \<times> Scanner" where
  "determineQualifier base lexer scanner offsetInLine =
     (let position = tokenIndex scanner;
          lead = seekQualifierStart lexer position scanner;
          (temp, scanner') =
             (if isIdentifier lexer (tokenType lead)
              then (unquote base (tokenText lead), scanner_next True lead)
              else ('''', lead))
      in if \<not> scanner_is scanner' (tokenId lexer DOT_SYMBOL) \<or> position \<le> tokenIndex scanner'
         then (ShowFirst OR ShowSecond, '''', scanner')
         else (ShowSecond, temp, scanner'))"

subsection \<open>determineSchemaTableQualifier\<close>

text \<open>The same first half, going left over at most two dots.\<close>

definition seekSchemaTableStart :: "MySQLLexer \<Rightarrow> nat \<Rightarrow> Scanner \<Rightarrow> Scanner" where
  "seekSchemaTableStart lexer position scanner0 =
     (let scanner1 = (if tokenChannel scanner0 \<noteq> 0 then scanner_next True scanner0 else scanner0);
          tokenType1 = tokenType scanner1;
          scanner2 = (if tokenType1 \<noteq> tokenId lexer DOT_SYMBOL
                         \<and> \<not> isIdentifier lexer (tokenType scanner1)
                      then scanner_previous True scanner1 else scanner1)
      in if position > 0 then
           (let scanner3 = (if isIdentifier lexer (tokenType scanner2)
                               \<and> lookBack scanner2 = tokenId lexer DOT_SYMBOL
                            then scanner_previous True scanner2 else scanner2)
            in if scanner_is scanner3 (tokenId lexer DOT_SYMBOL)
                  \<and> isIdentifier lexer (lookBack scanner3)
               then (let scanner4 = scanner_previous True scanner3
                     in if lookBack scanner4 = tokenId lexer DOT_SYMBOL
                        then (let scanner5 = scanner_previous True scanner4
                              in if isIdentifier lexer (lookBack scanner5)
                                 then scanner_previous True scanner5 else scanner5)
                        else scanner4)
               else scanner3)
         else scanner2)"

text \<open>Result: flags, schema, table and the scanner.\<close>

definition determineSchemaTableQualifier ::
  "base_lib \<Rightarrow> MySQLLexer \<Rightarrow> Scanner \<Rightarrow> int \<times> string \<times> string \<times> Scanner" where
  "determineSchemaTableQualifier base lexer scanner =
     (let position = tokenIndex scanner;
          lead = seekSchemaTableStart lexer position scanner;
          (temp, scanner1) =
             (if isIdentifier lexer (tokenType lead)
              then (unquote base (tokenText lead), scanner_next True lead)
              else ('''', lead))
      in if \<not> scanner_is scanner1 (tokenId lexer DOT_SYMBOL) \<or> position \<le> tokenIndex scanner1
         then (ShowSchemas OR ShowTables OR ShowColumns, '''', '''', scanner1)
         else
           (let scanner2 = scanner_next True scanner1
            in if isIdentifier lexer (tokenType scanner2)
               then
                 (let temp' = unquote base (tokenText scanner2);
                      scanner3 = scanner_next True scanner2
                  in if \<not> scanner_is scanner3 (tokenId lexer DOT_SYMBOL)
                        \<or> position \<le> tokenIndex scanner3
                     then (ShowTables OR ShowColumns, temp, temp, scanner3)
                     else (ShowColumns, temp, temp', scanner3))
               else (ShowTables OR ShowColumns, temp, temp, scanner2)))"

section \<open>Candidate collection\<close>

text \<open>
  The rule indexes \<^verbatim>\<open>MySQLParser::Rule...\<close> the engine mentions, as an enumeration; any other
  rule of the grammar is \<open>RuleOther\<close>.
\<close>

datatype MySQLParserRule =
    RuleSchemaRef | RuleTableRef | RuleTableRefWithWildcard | RuleFilterTableRef
  | RuleTableRefNoDb | RuleColumnRef | RuleColumnInternalRef | RuleTableWild
  | RuleFunctionRef | RuleFunctionCall | RuleRuntimeFunctionCall | RuleTriggerRef
  | RuleViewRef | RuleProcedureRef | RuleLogfileGroupRef | RuleTablespaceRef
  | RuleEngineRef | RuleCollationName | RuleCharsetName | RuleEventRef | RuleServerRef
  | RuleUserVariable | RuleSystemVariable | RuleLabelRef | RuleParameterName
  | RuleProcedureName | RuleIdentifier | RuleLabelIdentifier | RuleOther nat

text \<open>
  \<^verbatim>\<open>CandidatesCollection\<close>: two \<^verbatim>\<open>std::map\<close>s. The token map is keyed by token id and
  kept as an association list in ascending key order, the order in which the map is iterated.
  The rule map is only iterated, never changed, by the code below; it is the list of its
  entries in iteration order.
\<close>

record CandidatesCollection =
  tokens :: "(int \<times> int list) list"
  rules :: "(MySQLParserRule \<times> nat list) list"

text \<open>\<^verbatim>\<open>std::map\<close> operations: \<open>count\<close>, \<open>operator[]\<close> (read and assignment), \<open>insert\<close>, \<open>erase\<close>.\<close>

definition map_count :: "(int \<times> 'v) list \<Rightarrow> int \<Rightarrow> nat" where
  "map_count m k = length (filter (\<lambda>e. fst e = k) m)"

fun map_find :: "(int \<times> 'v) list \<Rightarrow> int \<Rightarrow> 'v option" where
  "map_find [] k = None"
| "map_find (e # m) k = (if fst e = k then Some (snd e) else map_find m k)"

fun map_assign :: "int \<Rightarrow> 'v \<Rightarrow> (int \<times> 'v) list \<Rightarrow> (int \<times> 'v) list" where
  "map_assign k v [] = [(k, v)]"
| "map_assign k v (e # m) =
     (if k < fst e then (k, v) # e # m
      else if k = fst e then (k, v) # m
      else e # map_assign k v m)"

fun map_insert :: "int \<Rightarrow> 'v \<Rightarrow> (int \<times> 'v) list \<Rightarrow> (int \<times> 'v) list" where
  "map_insert k v [] = [(k, v)]"
| "map_insert k v (e # m) =
     (if k < fst e then (k, v) # e # m
      else if k = fst e then e # m
      else e # map_insert k v m)"

definition map_erase :: "int \<Rightarrow> (int \<times> 'v) list \<Rightarrow> (int \<times> 'v) list" where
  "map_erase k m = filter (\<lambda>e. fst e \<noteq> k) m"

text \<open>Reading \<open>m[k]\<close>: the stored value, a default-constructed (empty) vector otherwise.\<close>

definition map_at :: "(int \<times> 'a list) list \<Rightarrow> int \<Rightarrow> 'a list" where
  "map_at m k = (case map_find m k of Some v \<Rightarrow> v | None \<Rightarrow> [])"

text \<open>\<^verbatim>\<open>struct TableReference\<close> with its fields \<^verbatim>\<open>schema\<close>, \<^verbatim>\<open>table\<close>, \<^verbatim>\<open>alias\<close>.\<close>

record TableReference =
  ref_schema :: string
  ref_table :: string
  ref_alias :: string

datatype RunState = RunStateMatching | RunStateCollectionPending

record AutoCompletionContext =
  runState :: RunState
  completionCandidates :: CandidatesCollection
  referencesStack :: "TableReference list list"
  references :: "TableReference list"

text \<open>
  The context as \<^verbatim>\<open>getCodeCompletionList\<close> declares it: empty containers (\<open>runState\<close> is
  left uninitialised there and never read).
\<close>

definition newContext :: AutoCompletionContext where
  "newContext =
     \<lparr>runState = RunStateMatching,
      completionCandidates = \<lparr>tokens = [], rules = []\<rparr>,
      referencesStack = [],
      references = []\<rparr>"

text \<open>
  The parser as the engine sees it: its token stream, its vocabulary, its lexer, and the
  result of running \<^verbatim>\<open>CodeCompletionCore::collectCandidates\<close> on it at a caret (the candidate
  engine is an external collaborator; the sets \<^verbatim>\<open>ignoredTokens\<close>, \<^verbatim>\<open>preferredRules\<close> and
  \<^verbatim>\<open>noSeparatorRequiredFor\<close> configure it and are not read again). The token source of
  the parser is taken to be a \<^verbatim>\<open>MySQLLexer\<close>, so the \<^verbatim>\<open>dynamic_cast\<close> of
  \<^verbatim>\<open>getCodeCompletionList\<close> succeeds and the query type is the lexer's.
\<close>

record MySQLParser =
  getTokenStream :: "Token list"
  getDisplayName :: "int \<Rightarrow> string"
  getTokenSource :: MySQLLexer
  c3_collectCandidates :: "nat \<times> nat \<Rightarrow> CandidatesCollection"

text \<open>\<^verbatim>\<open>collectRemainingTableReferences\<close>: the body declares a listener class and does nothing.\<close>

definition collectRemainingTableReferences :: "AutoCompletionContext \<Rightarrow> AutoCompletionContext" where
  "collectRemainingTableReferences context = context"

text \<open>\<^verbatim>\<open>takeReferencesSnapshot\<close>: both loops push every entry of every level.\<close>

definition takeReferencesSnapshot :: "AutoCompletionContext \<Rightarrow> AutoCompletionContext" where
  "takeReferencesSnapshot context =
     fold (\<lambda>level c. fold (\<lambda>entry c'. c'\<lparr>references := references c' @ [entry]\<rparr>) level c)
       (referencesStack context) context"

definition renameNot2 :: "MySQLLexer \<Rightarrow> CandidatesCollection \<Rightarrow> CandidatesCollection" where
  "renameNot2 lexer candidates =
     (if map_count (tokens candidates) (tokenId lexer NOT2_SYMBOL) > 0
      then candidates\<lparr>tokens :=
             map_erase (tokenId lexer NOT2_SYMBOL)
               (map_assign (tokenId lexer NOT_SYMBOL)
                  (map_at (tokens candidates) (tokenId lexer NOT2_SYMBOL))
                  (tokens candidates))\<rparr>
      else candidates)"

definition collectCandidates ::
  "MySQLParser \<Rightarrow> nat \<times> nat \<Rightarrow> AutoCompletionContext \<Rightarrow> AutoCompletionContext" where
  "collectCandidates parser caret context =
     (let context1 = context\<lparr>referencesStack := referencesStack context @ [[]]\<rparr>;
          context2 = context1\<lparr>completionCandidates := c3_collectCandidates parser caret\<rparr>;
          context3 = context2\<lparr>completionCandidates :=
                       renameNot2 (getTokenSource parser) (completionCandidates context2)\<rparr>
      in fold (\<lambda>ruleEntry c.
                 if fst ruleEntry = RuleColumnRef
                 then takeReferencesSnapshot (collectRemainingTableReferences c)
                 else c)
           (rules (completionCandidates context3)) context3)"

section \<open>Completion sets\<close>

text \<open>
  The image ids \<^verbatim>\<open>AC_..._IMAGE\<close> that tag an entry with its kind (macros of the engine's
  header), as an enumeration.
\<close>

datatype CompletionKind =
    AC_KEYWORD_IMAGE | AC_SCHEMA_IMAGE | AC_TABLE_IMAGE | AC_VIEW_IMAGE | AC_COLUMN_IMAGE
  | AC_FUNCTION_IMAGE | AC_ROUTINE_IMAGE | AC_TRIGGER_IMAGE | AC_EVENT_IMAGE | AC_ENGINE_IMAGE
  | AC_LOGFILE_GROUP_IMAGE | AC_TABLESPACE_IMAGE | AC_SYSTEM_VAR_IMAGE | AC_USER_VAR_IMAGE
  | AC_CHARSET_IMAGE | AC_COLLATION_IMAGE

type_synonym AcEntry = "CompletionKind \<times> string"

definition CompareAcEntries :: "base_lib \<Rightarrow> AcEntry \<Rightarrow> AcEntry \<Rightarrow> bool" where
  "CompareAcEntries base lhs rhs = (string_compare base (snd lhs) (snd rhs) False < 0)"

text \<open>
  \<^verbatim>\<open>CompletionSet\<close> is a \<^verbatim>\<open>std::set\<close> ordered by \<^verbatim>\<open>CompareAcEntries\<close>: the list of its
  elements in iteration order. \<open>insert\<close> puts a new element before the first element it is
  smaller than, and drops it when it meets an element that is neither smaller nor greater.
\<close>

fun CompletionSet_insert :: "base_lib \<Rightarrow> AcEntry \<Rightarrow> AcEntry list \<Rightarrow> AcEntry list" where
  "CompletionSet_insert base e [] = [e]"
| "CompletionSet_insert base e (x # xs) =
     (if CompareAcEntries base e x then e # x # xs
      else if CompareAcEntries base x e then x # CompletionSet_insert base e xs
      else x # xs)"

text \<open>\<^verbatim>\<open>std::set<std::string>\<close>: ordered by the byte-wise order of \<^verbatim>\<open>std::string\<close>.\<close>

fun string_set_insert :: "string \<Rightarrow> string list \<Rightarrow> string list" where
  "string_set_insert s [] = [s]"
| "string_set_insert s (x # xs) =
     (if s < x then s # x # xs
      else if x < s then x # string_set_insert s xs
      else x # xs)"

definition string_set_count :: "string list \<Rightarrow> string \<Rightarrow> nat" where
  "string_set_count xs s = length (filter (\<lambda>x. x = s) xs)"

subsection \<open>The object names cache\<close>

text \<open>The queries of \<^verbatim>\<open>MySQLObjectNamesCache\<close> the engine calls (an external collaborator).\<close>

record MySQLObjectNamesCache =
  getMatchingSchemaNames :: "string \<Rightarrow> string list"
  getMatchingTableNames :: "string \<Rightarrow> string \<Rightarrow> string list"
  getMatchingViewNames :: "string \<Rightarrow> string \<Rightarrow> string list"
  getMatchingColumnNames :: "string \<Rightarrow> string \<Rightarrow> string \<Rightarrow> string list"
  getMatchingUdfNames :: "string \<Rightarrow> string list"
  getMatchingFunctionNames :: "string \<Rightarrow> string \<Rightarrow> string list"
  getMatchingProcedureNames :: "string \<Rightarrow> string \<Rightarrow> string list"
  getMatchingTriggerNames :: "string \<Rightarrow> string \<Rightarrow> string \<Rightarrow> string list"
  getMatchingEngines :: "string \<Rightarrow> string list"
  getMatchingLogfileGroups :: "string \<Rightarrow> string list"
  getMatchingTablespaces :: "string \<Rightarrow> string list"
  getMatchingVariables :: "string \<Rightarrow> string list"
  getMatchingCharsets :: "string \<Rightarrow> string list"
  getMatchingCollations :: "string \<Rightarrow> string list"
  getMatchingEvents :: "string \<Rightarrow> string \<Rightarrow> string list"

definition insertSchemas ::
  "base_lib \<Rightarrow> MySQLObjectNamesCache \<Rightarrow> AcEntry list \<Rightarrow> string \<Rightarrow> AcEntry list" where
  "insertSchemas base cache set' typedPart =
     fold (\<lambda>schema s. CompletionSet_insert base (AC_SCHEMA_IMAGE, schema) s)
       (getMatchingSchemaNames cache typedPart) set'"

definition insertTables ::
  "base_lib \<Rightarrow> MySQLObjectNamesCache \<Rightarrow> AcEntry list \<Rightarrow> string list \<Rightarrow> string \<Rightarrow> AcEntry list" where
  "insertTables base cache set' schemas typedPart =
     fold (\<lambda>schema s.
             fold (\<lambda>table s'. CompletionSet_insert base (AC_TABLE_IMAGE, table) s')
               (getMatchingTableNames cache schema typedPart) s)
       schemas set'"

definition insertViews ::
  "base_lib \<Rightarrow> MySQLObjectNamesCache \<Rightarrow> AcEntry list \<Rightarrow> string list \<Rightarrow> string \<Rightarrow> AcEntry list" where
  "insertViews base cache set' schemas typedPart =
     fold (\<lambda>schema s.
             fold (\<lambda>view s'. CompletionSet_insert base (AC_VIEW_IMAGE, view) s')
               (getMatchingViewNames cache schema typedPart) s)
       schemas set'"

definition insertColumns ::
  "base_lib \<Rightarrow> MySQLObjectNamesCache \<Rightarrow> AcEntry list \<Rightarrow> string list \<Rightarrow> string list
     \<Rightarrow> string \<Rightarrow> AcEntry list" where
  "insertColumns base cache set' schemas tables typedPart =
     fold (\<lambda>schema s.
             fold (\<lambda>table s'.
                     fold (\<lambda>column s''. CompletionSet_insert base (AC_COLUMN_IMAGE, column) s'')
                       (getMatchingColumnNames cache schema table typedPart) s')
               tables s)
       schemas set'"

section \<open>Result assembly\<close>

text \<open>The completion sets \<^verbatim>\<open>getCodeCompletionList\<close> declares, one per object type.\<close>

record CompletionSets =
  schemaEntries :: "AcEntry list"
  tableEntries :: "AcEntry list"
  columnEntries :: "AcEntry list"
  viewEntries :: "AcEntry list"
  functionEntries :: "AcEntry list"
  udfEntries :: "AcEntry list"
  runtimeFunctionEntries :: "AcEntry list"
  procedureEntries :: "AcEntry list"
  triggerEntries :: "AcEntry list"
  engineEntries :: "AcEntry list"
  logfileGroupEntries :: "AcEntry list"
  tablespaceEntries :: "AcEntry list"
  systemVarEntries :: "AcEntry list"
  keywordEntries :: "AcEntry list"
  collationEntries :: "AcEntry list"
  charsetEntries :: "AcEntry list"
  eventEntries :: "AcEntry list"
  userVarEntries :: "AcEntry list"
  userEntries :: "AcEntry list"
  indexEntries :: "AcEntry list"
  pluginEntries :: "AcEntry list"
  fkEntries :: "AcEntry list"

definition emptySets :: CompletionSets where
  "emptySets =
     \<lparr>schemaEntries = [], tableEntries = [], columnEntries = [], viewEntries = [],
      functionEntries = [], udfEntries = [], runtimeFunctionEntries = [],
      procedureEntries = [], triggerEntries = [], engineEntries = [],
      logfileGroupEntries = [], tablespaceEntries = [], systemVarEntries = [],
      keywordEntries = [], collationEntries = [], charsetEntries = [], eventEntries = [],
      userVarEntries = [], userEntries = [], indexEntries = [], pluginEntries = [],
      fkEntries = []\<rparr>"

text \<open>All sets but \<open>keywordEntries\<close>.\<close>

definition otherSets :: "CompletionSets \<Rightarrow> AcEntry list list" where
  "otherSets sets =
     [schemaEntries sets, tableEntries sets, columnEntries sets, viewEntries sets,
      functionEntries sets, udfEntries sets, runtimeFunctionEntries sets, procedureEntries sets,
      triggerEntries sets, engineEntries sets, logfileGroupEntries sets, tablespaceEntries sets,
      systemVarEntries sets, collationEntries sets, charsetEntries sets, eventEntries sets,
      userVarEntries sets, userEntries sets, indexEntries sets, pluginEntries sets,
      fkEntries sets]"

subsection \<open>The static synonyms table\<close>

text \<open>
  The initializer list of \<^verbatim>\<open>synonyms\<close> in source order; the map keeps the first entry of a
  key that is listed twice.
\<close>

definition synonyms :: "MySQLLexer \<Rightarrow> (int \<times> string list) list" where
  "synonyms lexer =
     fold (\<lambda>e m. map_insert (tokenId lexer (fst e)) (snd e) m)
       [(CHAR_SYMBOL, [''CHARACTER'']),
        (NOW_SYMBOL, [''CURRENT_TIMESTAMP'', ''LOCALTIME'', ''LOCALTIMESTAMP'']),
        (DAY_SYMBOL, [''DAYOFMONTH'']),
        (DECIMAL_SYMBOL, [''DEC'']),
        (DISTINCT_SYMBOL, [''DISTINCTROW'']),
        (CHAR_SYMBOL, [''CHARACTER'']),
        (COLUMNS_SYMBOL, [''FIELDS'']),
        (FLOAT_SYMBOL, [''FLOAT4'']),
        (DOUBLE_SYMBOL, [''FLOAT8'']),
        (INT_SYMBOL, [''INTEGER'', ''INT4'']),
        (RELAY_THREAD_SYMBOL, [''IO_THREAD'']),
        (SUBSTRING_SYMBOL, [''MID'']),
        (MID_SYMBOL, [''MEDIUMINT'']),
        (MEDIUMINT_SYMBOL, [''MIDDLEINT'']),
        (NDBCLUSTER_SYMBOL, [''NDB'']),
        (REGEXP_SYMBOL, [''RLIKE'']),
        (DATABASE_SYMBOL, [''SCHEMA'']),
        (DATABASES_SYMBOL, [''SCHEMAS'']),
        (USER_SYMBOL, [''SESSION_USER'']),
        (STD_SYMBOL, [''STDDEV'', ''STDDEV'']),
        (SUBSTRING_SYMBOL, [''SUBSTR'']),
        (VARCHAR_SYMBOL, [''VARCHARACTER'']),
        (VARIANCE_SYMBOL, [''VAR_POP'']),
        (TINYINT_SYMBOL, [''INT1'']),
        (SMALLINT_SYMBOL, [''INT2'']),
        (MEDIUMINT_SYMBOL, [''INT3'']),
        (BIGINT_SYMBOL, [''INT8'']),
        (FRAC_SECOND_SYMBOL, [''SQL_TSI_FRAC_SECOND'']),
        (SECOND_SYMBOL, [''SQL_TSI_SECOND'']),
        (MINUTE_SYMBOL, [''SQL_TSI_MINUTE'']),
        (HOUR_SYMBOL, [''SQL_TSI_HOUR'']),
        (DAY_SYMBOL, [''SQL_TSI_DAY'']),
        (WEEK_SYMBOL, [''SQL_TSI_WEEK'']),
        (MONTH_SYMBOL, [''SQL_TSI_MONTH'']),
        (QUARTER_SYMBOL, [''SQL_TSI_QUARTER'']),
        (YEAR_SYMBOL, [''SQL_TSI_YEAR''])]
       []"

subsection \<open>Token candidates\<close>

text \<open>\<^verbatim>\<open>std::string::rfind\<close>: the last position at which \<open>sub\<close> occurs, \<open>None\<close> for \<^verbatim>\<open>npos\<close>.\<close>

definition rfind :: "string \<Rightarrow> string \<Rightarrow> nat option" where
  "rfind s sub =
     (if length sub \<le> length s
      then (case filter (\<lambda>i. take (length sub) (drop i s) = sub)
                   (rev [0..<Suc (length s - length sub)]) of
              [] \<Rightarrow> None
            | p # _ \<Rightarrow> Some p)
      else None)"

text \<open>The display name of a token with the suffix cut off, or unquoted.\<close>

definition displayEntry :: "base_lib \<Rightarrow> MySQLParser \<Rightarrow> int \<Rightarrow> string" where
  "displayEntry base parser token =
     (let entry = getDisplayName parser token
      in if rfind entry ''_SYMBOL'' \<noteq> None then take (length entry - 7) entry
         else unquote base entry)"

text \<open>
  The body of the loop over \<^verbatim>\<open>completionCandidates.tokens\<close>. \<open>candidateEntry\<close> is its
  first half: the number of the list the entry goes to (1 for a function call) and the entry
  text, with the follow tokens appended.
\<close>

definition candidateEntry :: "base_lib \<Rightarrow> MySQLParser \<Rightarrow> int \<times> int list \<Rightarrow> nat \<times> string" where
  "candidateEntry base parser candidate =
     (let entry = displayEntry base parser (fst candidate)
      in if snd candidate \<noteq> []
         then (if hd (snd candidate) = tokenId (getTokenSource parser) OPEN_PAR_SYMBOL
               then (1, entry)
               else (0, fold (\<lambda>token e. e @ '' '' @ displayEntry base parser token)
                          (snd candidate) entry))
         else (0, entry))"

definition keywordText :: "base_lib \<Rightarrow> bool \<Rightarrow> string \<Rightarrow> string" where
  "keywordText base uppercaseKeywords entry =
     (if \<not> uppercaseKeywords then tolower base entry else entry)"

definition processToken ::
  "base_lib \<Rightarrow> MySQLParser \<Rightarrow> bool \<Rightarrow> int \<times> int list \<Rightarrow> CompletionSets \<Rightarrow> CompletionSets" where
  "processToken base parser uppercaseKeywords candidate sets =
     (let (list, entry) = candidateEntry base parser candidate
      in if list = 1
         then sets\<lparr>runtimeFunctionEntries :=
                CompletionSet_insert base (AC_FUNCTION_IMAGE, tolower base entry @ ''()'')
                  (runtimeFunctionEntries sets)\<rparr>
         else sets\<lparr>keywordEntries :=
                CompletionSet_insert base
                  (AC_KEYWORD_IMAGE, keywordText base uppercaseKeywords entry)
                  (keywordEntries sets)\<rparr>)"

subsection \<open>Rule candidates\<close>

text \<open>
  One definition per \<^verbatim>\<open>case\<close> group of the \<^verbatim>\<open>switch\<close> over the rule index. Each takes
  the scanner (restored to the caret) and the sets, and returns both.
\<close>

definition onRuntimeFunctionCall ::
  "base_lib \<Rightarrow> string \<Rightarrow> Scanner \<times> CompletionSets \<Rightarrow> Scanner \<times> CompletionSets" where
  "onRuntimeFunctionCall base functionNames st =
     (let functions = split_by_set base functionNames [CHR '' '', CHR 0x09, CHR 0x0A]
      in (fst st, (snd st)\<lparr>runtimeFunctionEntries :=
            fold (\<lambda>function s. CompletionSet_insert base (AC_FUNCTION_IMAGE, function @ ''()'') s)
              functions (runtimeFunctionEntries (snd st))\<rparr>))"

definition onFunctionRef ::
  "base_lib \<Rightarrow> MySQLLexer \<Rightarrow> MySQLObjectNamesCache \<Rightarrow> string \<Rightarrow> nat
     \<Rightarrow> Scanner \<times> CompletionSets \<Rightarrow> Scanner \<times> CompletionSets" where
  "onFunctionRef base lexer cache defaultSchema caretOffset st =
     (let (flags, qualifier, scanner1) = determineQualifier base lexer (fst st) caretOffset;
          sets1 = (if qualifier = []
                   then (snd st)\<lparr>runtimeFunctionEntries :=
                          fold (\<lambda>function s.
                                  CompletionSet_insert base (AC_FUNCTION_IMAGE, function @ ''()'') s)
                            (getMatchingUdfNames cache []) (runtimeFunctionEntries (snd st))\<rparr>
                   else snd st);
          sets2 = (if flags AND ShowFirst \<noteq> 0
                   then sets1\<lparr>schemaEntries := insertSchemas base cache (schemaEntries sets1) []\<rparr>
                   else sets1);
          sets3 = (if flags AND ShowSecond \<noteq> 0
                   then (let qualifier1 = (if qualifier = [] then defaultSchema else qualifier)
                         in sets2\<lparr>functionEntries :=
                              fold (\<lambda>function s. CompletionSet_insert base (AC_ROUTINE_IMAGE, function) s)
                                (getMatchingFunctionNames cache qualifier1 [])
                                (functionEntries sets2)\<rparr>)
                   else sets2)
      in (scanner1, sets3))"

definition onEngineRef ::
  "base_lib \<Rightarrow> MySQLObjectNamesCache \<Rightarrow> Scanner \<times> CompletionSets \<Rightarrow> Scanner \<times> CompletionSets" where
  "onEngineRef base cache st =
     (fst st, (snd st)\<lparr>engineEntries :=
        fold (\<lambda>engine s. CompletionSet_insert base (AC_ENGINE_IMAGE, engine) s)
          (getMatchingEngines cache []) (engineEntries (snd st))\<rparr>)"

definition onSchemaRef ::
  "base_lib \<Rightarrow> MySQLObjectNamesCache \<Rightarrow> Scanner \<times> CompletionSets \<Rightarrow> Scanner \<times> CompletionSets" where
  "onSchemaRef base cache st =
     (fst st, (snd st)\<lparr>schemaEntries := insertSchemas base cache (schemaEntries (snd st)) []\<rparr>)"

definition onProcedureRef ::
  "base_lib \<Rightarrow> MySQLLexer \<Rightarrow> MySQLObjectNamesCache \<Rightarrow> string \<Rightarrow> nat
     \<Rightarrow> Scanner \<times> CompletionSets \<Rightarrow> Scanner \<times> CompletionSets" where
  "onProcedureRef base lexer cache defaultSchema caretOffset st =
     (let (flags, qualifier, scanner1) = determineQualifier base lexer (fst st) caretOffset;
          sets1 = (if flags AND ShowFirst \<noteq> 0
                   then (snd st)\<lparr>schemaEntries :=
                          insertSchemas base cache (schemaEntries (snd st)) []\<rparr>
                   else snd st);
          sets2 = (if flags AND ShowSecond \<noteq> 0
                   then (let qualifier1 = (if qualifier = [] then defaultSchema else qualifier)
                         in sets1\<lparr>procedureEntries :=
                              fold (\<lambda>procedure s.
                                      CompletionSet_insert base (AC_ROUTINE_IMAGE, procedure) s)
                                (getMatchingProcedureNames cache qualifier1 [])
                                (procedureEntries sets1)\<rparr>)
                   else sets1)
      in (scanner1, sets2))"

definition onTableRefWithWildcard ::
  "base_lib \<Rightarrow> MySQLLexer \<Rightarrow> MySQLObjectNamesCache \<Rightarrow> string
     \<Rightarrow> Scanner \<times> CompletionSets \<Rightarrow> Scanner \<times> CompletionSets" where
  "onTableRefWithWildcard base lexer cache defaultSchema st =
     (let (flags, schema', table', scanner1) = determineSchemaTableQualifier base lexer (fst st);
          sets1 = (if flags AND ShowSchemas \<noteq> 0
                   then (snd st)\<lparr>schemaEntries :=
                          insertSchemas base cache (schemaEntries (snd st)) []\<rparr>
                   else snd st);
          schemas = string_set_insert (if schema' = [] then defaultSchema else schema') [];
          sets2 = (if flags AND ShowTables \<noteq> 0
                   then (let sets1a = sets1\<lparr>tableEntries :=
                                        insertTables base cache (tableEntries sets1) schemas []\<rparr>
                         in sets1a\<lparr>viewEntries :=
                              insertViews base cache (viewEntries sets1a) schemas []\<rparr>)
                   else sets1)
      in (scanner1, sets2))"

definition onTableRef ::
  "base_lib \<Rightarrow> MySQLLexer \<Rightarrow> MySQLObjectNamesCache \<Rightarrow> string \<Rightarrow> nat
     \<Rightarrow> Scanner \<times> CompletionSets \<Rightarrow> Scanner \<times> CompletionSets" where
  "onTableRef base lexer cache defaultSchema caretOffset st =
     (let (flags, qualifier, scanner1) = determineQualifier base lexer (fst st) caretOffset;
          sets1 = (if flags AND ShowFirst \<noteq> 0
                   then (snd st)\<lparr>schemaEntries :=
                          insertSchemas base cache (schemaEntries (snd st)) []\<rparr>
                   else snd st);
          sets2 = (if flags AND ShowSecond \<noteq> 0
                   then (let schemas =
                               string_set_insert (if qualifier = [] then defaultSchema else qualifier) [];
                             sets1a = sets1\<lparr>tableEntries :=
                                        insertTables base cache (tableEntries sets1) schemas []\<rparr>
                         in sets1a\<lparr>viewEntries :=
                              insertViews base cache (viewEntries sets1a) schemas []\<rparr>)
                   else sets1)
      in (scanner1, sets2))"

text \<open>
  The column case. \<open>columnRefSchemas\<close> is the set \<^verbatim>\<open>schemas\<close> as built before the
  \<^verbatim>\<open>ShowTables\<close> block, \<open>columnRefTables\<close> the set \<^verbatim>\<open>tables\<close> of the \<^verbatim>\<open>ShowColumns\<close> block
  (\<open>aliasTable\<close> is its loop over the references, left at the first alias that matches).
\<close>

definition columnRefSchemas :: "TableReference list \<Rightarrow> string \<Rightarrow> string \<Rightarrow> string list" where
  "columnRefSchemas refs defaultSchema schema' =
     (let schemas =
            (if schema' \<noteq> [] then string_set_insert schema' []
             else if refs \<noteq> []
             then fold (\<lambda>reference set'.
                          if ref_schema reference \<noteq> []
                          then string_set_insert (ref_schema reference) set' else set')
                    refs []
             else [])
      in if schemas = [] then string_set_insert defaultSchema schemas else schemas)"

fun aliasTable :: "base_lib \<Rightarrow> string \<Rightarrow> TableReference list \<Rightarrow> string list \<Rightarrow> string list" where
  "aliasTable base table' [] tables = tables"
| "aliasTable base table' (reference # refs) tables =
     (if same_string base table' (ref_alias reference)
      then string_set_insert (ref_table reference) tables
      else aliasTable base table' refs tables)"

definition columnRefTables ::
  "base_lib \<Rightarrow> TableReference list \<Rightarrow> MySQLParserRule \<Rightarrow> string \<Rightarrow> string list" where
  "columnRefTables base refs rule table' =
     (if table' \<noteq> []
      then aliasTable base table' refs (string_set_insert table' [])
      else if refs \<noteq> [] \<and> rule = RuleColumnRef
      then fold (\<lambda>reference tables. string_set_insert (ref_table reference) tables) refs []
      else [])"

text \<open>The \<^verbatim>\<open>ShowColumns\<close> block: the new contents of \<^verbatim>\<open>columnEntries\<close>.\<close>

definition showColumnsBlock ::
  "base_lib \<Rightarrow> MySQLObjectNamesCache \<Rightarrow> string \<Rightarrow> MySQLQueryType \<Rightarrow> TableReference list
     \<Rightarrow> MySQLParserRule \<Rightarrow> string \<Rightarrow> string \<Rightarrow> string list \<Rightarrow> AcEntry list \<Rightarrow> AcEntry list" where
  "showColumnsBlock base cache defaultSchema queryType refs rule schema' table' schemas entries =
     (let schemas1 = (if schema' = table' then string_set_insert defaultSchema schemas
                      else schemas);
          tables = columnRefTables base refs rule table';
          entries1 = (if tables \<noteq> []
                      then insertColumns base cache entries schemas1 tables []
                      else entries)
      in if queryType = QtCreateTrigger \<and> refs \<noteq> []
            \<and> (same_string base table' ''old'' \<or> same_string base table' ''new'')
         then insertColumns base cache entries1 schemas1
                (string_set_insert (ref_table (hd refs)) []) []
         else entries1)"

definition onColumnRef ::
  "base_lib \<Rightarrow> MySQLLexer \<Rightarrow> MySQLObjectNamesCache \<Rightarrow> string \<Rightarrow> MySQLQueryType
     \<Rightarrow> TableReference list \<Rightarrow> MySQLParserRule
     \<Rightarrow> Scanner \<times> CompletionSets \<Rightarrow> Scanner \<times> CompletionSets" where
  "onColumnRef base lexer cache defaultSchema queryType refs rule st =
     (let (flags, schema', table', scanner1) = determineSchemaTableQualifier base lexer (fst st);
          sets1 = (if flags AND ShowSchemas \<noteq> 0
                   then (snd st)\<lparr>schemaEntries :=
                          insertSchemas base cache (schemaEntries (snd st)) []\<rparr>
                   else snd st);
          schemas = columnRefSchemas refs defaultSchema schema';
          sets2 =
            (if flags AND ShowTables \<noteq> 0
             then (let sets1a = sets1\<lparr>tableEntries :=
                                  insertTables base cache (tableEntries sets1) schemas []\<rparr>
                   in if rule = RuleColumnRef
                      then (let sets1b = sets1a\<lparr>viewEntries :=
                                           insertViews base cache (viewEntries sets1a) schemas []\<rparr>
                            in sets1b\<lparr>tableEntries :=
                                 fold (\<lambda>reference s.
                                         if (schema' = [] \<and> ref_schema reference = [])
                                            \<or> string_set_count schemas (ref_schema reference) > 0
                                         then CompletionSet_insert base
                                                (AC_TABLE_IMAGE,
                                                 if ref_alias reference = [] then ref_table reference
                                                 else ref_alias reference) s
                                         else s)
                                   refs (tableEntries sets1b)\<rparr>)
                      else sets1a)
             else sets1);
          sets3 =
            (if flags AND ShowColumns \<noteq> 0
             then sets2\<lparr>columnEntries :=
                    showColumnsBlock base cache defaultSchema queryType refs rule schema' table'
                      schemas (columnEntries sets2)\<rparr>
             else sets2)
      in (scanner1, sets3))"

definition onTriggerRef ::
  "base_lib \<Rightarrow> MySQLLexer \<Rightarrow> MySQLObjectNamesCache \<Rightarrow> string \<Rightarrow> nat
     \<Rightarrow> Scanner \<times> CompletionSets \<Rightarrow> Scanner \<times> CompletionSets" where
  "onTriggerRef base lexer cache defaultSchema caretOffset st =
     (let (flags, qualifier, scanner1) = determineQualifier base lexer (fst st) caretOffset;
          schemas = string_set_insert defaultSchema [];
          sets1 = (if flags AND ShowFirst \<noteq> 0
                   then (snd st)\<lparr>schemaEntries :=
                          insertTables base cache (schemaEntries (snd st)) schemas []\<rparr>
                   else snd st);
          sets2 = (if flags AND ShowSecond \<noteq> 0
                   then sets1\<lparr>triggerEntries :=
                          fold (\<lambda>trigger s. CompletionSet_insert base (AC_TRIGGER_IMAGE, trigger) s)
                            (getMatchingTriggerNames cache defaultSchema qualifier [])
                            (triggerEntries sets1)\<rparr>
                   else sets1)
      in (scanner1, sets2))"

definition onViewRef ::
  "base_lib \<Rightarrow> MySQLLexer \<Rightarrow> MySQLObjectNamesCache \<Rightarrow> string \<Rightarrow> nat
     \<Rightarrow> Scanner \<times> CompletionSets \<Rightarrow> Scanner \<times> CompletionSets" where
  "onViewRef base lexer cache defaultSchema caretOffset st =
     (let (flags, qualifier, scanner1) = determineQualifier base lexer (fst st) caretOffset;
          sets1 = (if flags AND ShowFirst \<noteq> 0
                   then (snd st)\<lparr>schemaEntries :=
                          insertSchemas base cache (schemaEntries (snd st)) []\<rparr>
                   else snd st);
          sets2 = (if flags AND ShowSecond \<noteq> 0
                   then (let schemas =
                               string_set_insert (if qualifier = [] then defaultSchema else qualifier) []
                         in sets1\<lparr>viewEntries :=
                              insertViews base cache (viewEntries sets1) schemas []\<rparr>)
                   else sets1)
      in (scanner1, sets2))"

definition onLogfileGroupRef ::
  "base_lib \<Rightarrow> MySQLObjectNamesCache \<Rightarrow> Scanner \<times> CompletionSets \<Rightarrow> Scanner \<times> CompletionSets" where
  "onLogfileGroupRef base cache st =
     (fst st, (snd st)\<lparr>logfileGroupEntries :=
        fold (\<lambda>logfileGroup s. CompletionSet_insert base (AC_LOGFILE_GROUP_IMAGE, logfileGroup) s)
          (getMatchingLogfileGroups cache []) (logfileGroupEntries (snd st))\<rparr>)"

definition onTablespaceRef ::
  "base_lib \<Rightarrow> MySQLObjectNamesCache \<Rightarrow> Scanner \<times> CompletionSets \<Rightarrow> Scanner \<times> CompletionSets" where
  "onTablespaceRef base cache st =
     (fst st, (snd st)\<lparr>tablespaceEntries :=
        fold (\<lambda>tablespace s. CompletionSet_insert base (AC_TABLESPACE_IMAGE, tablespace) s)
          (getMatchingTablespaces cache []) (tablespaceEntries (snd st))\<rparr>)"

definition onUserVariable ::
  "base_lib \<Rightarrow> Scanner \<times> CompletionSets \<Rightarrow> Scanner \<times> CompletionSets" where
  "onUserVariable base st =
     (fst st, (snd st)\<lparr>userVarEntries :=
        CompletionSet_insert base (AC_USER_VAR_IMAGE, ''<user variable>'') (userVarEntries (snd st))\<rparr>)"

definition onLabelRef ::
  "base_lib \<Rightarrow> Scanner \<times> CompletionSets \<Rightarrow> Scanner \<times> CompletionSets" where
  "onLabelRef base st =
     (fst st, (snd st)\<lparr>userVarEntries :=
        CompletionSet_insert base (AC_USER_VAR_IMAGE, ''<block labels>'') (userVarEntries (snd st))\<rparr>)"

definition onSystemVariable ::
  "base_lib \<Rightarrow> MySQLObjectNamesCache \<Rightarrow> Scanner \<times> CompletionSets \<Rightarrow> Scanner \<times> CompletionSets" where
  "onSystemVariable base cache st =
     (fst st, (snd st)\<lparr>systemVarEntries :=
        fold (\<lambda>variable s. CompletionSet_insert base (AC_SYSTEM_VAR_IMAGE, variable) s)
          (getMatchingVariables cache []) (systemVarEntries (snd st))\<rparr>)"

definition onCharsetName ::
  "base_lib \<Rightarrow> MySQLObjectNamesCache \<Rightarrow> Scanner \<times> CompletionSets \<Rightarrow> Scanner \<times> CompletionSets" where
  "onCharsetName base cache st =
     (fst st, (snd st)\<lparr>charsetEntries :=
        fold (\<lambda>charset s. CompletionSet_insert base (AC_CHARSET_IMAGE, charset) s)
          (getMatchingCharsets cache []) (charsetEntries (snd st))\<rparr>)"

definition onCollationName ::
  "base_lib \<Rightarrow> MySQLObjectNamesCache \<Rightarrow> Scanner \<times> CompletionSets \<Rightarrow> Scanner \<times> CompletionSets" where
  "onCollationName base cache st =
     (fst st, (snd st)\<lparr>collationEntries :=
        fold (\<lambda>collation s. CompletionSet_insert base (AC_COLLATION_IMAGE, collation) s)
          (getMatchingCollations cache []) (collationEntries (snd st))\<rparr>)"

definition onEventRef ::
  "base_lib \<Rightarrow> MySQLLexer \<Rightarrow> MySQLObjectNamesCache \<Rightarrow> string \<Rightarrow> nat
     \<Rightarrow> Scanner \<times> CompletionSets \<Rightarrow> Scanner \<times> CompletionSets" where
  "onEventRef base lexer cache defaultSchema caretOffset st =
     (let (flags, qualifier, scanner1) = determineQualifier base lexer (fst st) caretOffset;
          sets1 = (if flags AND ShowFirst \<noteq> 0
                   then (snd st)\<lparr>schemaEntries :=
                          insertSchemas base cache (schemaEntries (snd st)) []\<rparr>
                   else snd st);
          sets2 = (if flags AND ShowSecond \<noteq> 0
                   then (let qualifier1 = (if qualifier = [] then defaultSchema else qualifier)
                         in sets1\<lparr>eventEntries :=
                              fold (\<lambda>event s. CompletionSet_insert base (AC_EVENT_IMAGE, event) s)
                                (getMatchingEvents cache qualifier1 []) (eventEntries sets1)\<rparr>)
                   else sets1)
      in (scanner1, sets2))"

text \<open>
  The body of the loop over \<^verbatim>\<open>completionCandidates.rules\<close>: restore the scanner to the
  caret and save that position again, then dispatch on the rule index.
\<close>

definition processRule ::
  "base_lib \<Rightarrow> MySQLLexer \<Rightarrow> MySQLObjectNamesCache \<Rightarrow> string \<Rightarrow> string \<Rightarrow> nat
     \<Rightarrow> MySQLQueryType \<Rightarrow> TableReference list
     \<Rightarrow> MySQLParserRule \<times> nat list \<Rightarrow> Scanner \<times> CompletionSets \<Rightarrow> Scanner \<times> CompletionSets" where
  "processRule base lexer cache defaultSchema functionNames caretOffset queryType refs candidate st =
     (let st1 = (push (pop (fst st)), snd st);
          rule = fst candidate
      in if rule = RuleRuntimeFunctionCall then onRuntimeFunctionCall base functionNames st1
         else if rule = RuleFunctionRef \<or> rule = RuleFunctionCall
         then onFunctionRef base lexer cache defaultSchema caretOffset st1
         else if rule = RuleEngineRef then onEngineRef base cache st1
         else if rule = RuleSchemaRef then onSchemaRef base cache st1
         else if rule = RuleProcedureRef
         then onProcedureRef base lexer cache defaultSchema caretOffset st1
         else if rule = RuleTableRefWithWildcard
         then onTableRefWithWildcard base lexer cache defaultSchema st1
         else if rule = RuleTableRef \<or> rule = RuleFilterTableRef \<or> rule = RuleTableRefNoDb
         then onTableRef base lexer cache defaultSchema caretOffset st1
         else if rule = RuleTableWild \<or> rule = RuleColumnRef \<or> rule = RuleColumnInternalRef
         then onColumnRef base lexer cache defaultSchema queryType refs rule st1
         else if rule = RuleTriggerRef
         then onTriggerRef base lexer cache defaultSchema caretOffset st1
         else if rule = RuleViewRef then onViewRef base lexer cache defaultSchema caretOffset st1
         else if rule = RuleLogfileGroupRef then onLogfileGroupRef base cache st1
         else if rule = RuleTablespaceRef then onTablespaceRef base cache st1
         else if rule = RuleUserVariable then onUserVariable base st1
         else if rule = RuleLabelRef then onLabelRef base st1
         else if rule = RuleSystemVariable then onSystemVariable base cache st1
         else if rule = RuleCharsetName then onCharsetName base cache st1
         else if rule = RuleCollationName then onCollationName base cache st1
         else if rule = RuleEventRef then onEventRef base lexer cache defaultSchema caretOffset st1
         else st1)"

subsection \<open>Final list\<close>

text \<open>The sequence of \<^verbatim>\<open>std::copy(..., std::back_inserter(result))\<close> calls.\<close>

definition copy_back :: "AcEntry list \<Rightarrow> AcEntry list \<Rightarrow> AcEntry list" where
  "copy_back entries result = result @ entries"

definition emitResult :: "CompletionSets \<Rightarrow> AcEntry list" where
  "emitResult sets =
     (copy_back (systemVarEntries sets)
      (copy_back (runtimeFunctionEntries sets)
      (copy_back (userVarEntries sets)
      (copy_back (collationEntries sets)
      (copy_back (charsetEntries sets)
      (copy_back (tablespaceEntries sets)
      (copy_back (logfileGroupEntries sets)
      (copy_back (pluginEntries sets)
      (copy_back (engineEntries sets)
      (copy_back (userEntries sets)
      (copy_back (eventEntries sets)
      (copy_back (indexEntries sets)
      (copy_back (triggerEntries sets)
      (copy_back (procedureEntries sets)
      (copy_back (functionEntries sets)
      (copy_back (schemaEntries sets)
      (copy_back (viewEntries sets)
      (copy_back (tableEntries sets)
      (copy_back (columnEntries sets)
      (copy_back (keywordEntries sets) []))))))))))))))))))))"

text \<open>
  The sets as they stand when the two loops of \<^verbatim>\<open>getCodeCompletionList\<close> are done, and the
  function itself.
\<close>

definition fillCompletionSets ::
  "base_lib \<Rightarrow> nat \<Rightarrow> nat \<Rightarrow> string \<Rightarrow> bool \<Rightarrow> MySQLParser \<Rightarrow> string
     \<Rightarrow> MySQLObjectNamesCache \<Rightarrow> CompletionSets" where
  "fillCompletionSets base caretLine caretOffset defaultSchema uppercaseKeywords parser
       functionNames cache =
     (let context = collectCandidates parser (caretOffset, caretLine + 1) newContext;
          scanner = newScanner (getTokenStream parser);
          lexer = getTokenSource parser;
          queryType = determineQueryType lexer;
          scanner1 = push (advanceToPosition (caretLine + 1) caretOffset scanner);
          sets1 = fold (processToken base parser uppercaseKeywords)
                    (tokens (completionCandidates context)) emptySets;
          st = fold (processRule base lexer cache defaultSchema functionNames caretOffset
                       queryType (references context))
                 (rules (completionCandidates context)) (scanner1, sets1)
      in snd (pop (fst st), snd st))"

definition getCodeCompletionList ::
  "base_lib \<Rightarrow> nat \<Rightarrow> nat \<Rightarrow> string \<Rightarrow> bool \<Rightarrow> MySQLParser \<Rightarrow> string
     \<Rightarrow> MySQLObjectNamesCache \<Rightarrow> AcEntry list" where
  "getCodeCompletionList base caretLine caretOffset defaultSchema uppercaseKeywords parser
       functionNames cache =
     emitResult
       (fillCompletionSets base caretLine caretOffset defaultSchema uppercaseKeywords parser
          functionNames cache)"

section \<open>Concrete collaborators\<close>

text \<open>
  Concrete instances of the collaborators, on which the definitions above can be evaluated.
\<close>

subsection \<open>String helpers\<close>

text \<open>
  Modelled from the spec: the bodies of the base library's string helpers are not part of the
  files verified here. \<open>spec_unquote\<close> strips surrounding quote characters, \<open>spec_tolower\<close>
  lowercases, \<open>spec_string_compare\<close> is the lexicographic comparison (case-insensitive when
  its flag is false), \<open>spec_same_string\<close> compares case-insensitively, and
  \<open>spec_split_by_set\<close> splits at every separator character.
\<close>

definition char_tolower :: "char \<Rightarrow> char" where
  "char_tolower c =
     (if CHR ''A'' \<le> c \<and> c \<le> CHR ''Z'' then char_of (of_char c + (32 :: nat)) else c)"

definition spec_tolower :: "string \<Rightarrow> string" where
  "spec_tolower s = map char_tolower s"

definition spec_unquote :: "string \<Rightarrow> string" where
  "spec_unquote s =
     (if 2 \<le> length s \<and> hd s \<in> {CHR 0x22, CHR 0x27, CHR 0x60} \<and> last s = hd s
      then butlast (tl s) else s)"

definition spec_string_compare :: "string \<Rightarrow> string \<Rightarrow> bool \<Rightarrow> int" where
  "spec_string_compare first second case_sensitive =
     (let l = (if case_sensitive then first else spec_tolower first);
          r = (if case_sensitive then second else spec_tolower second)
      in if l < r then - 1 else if r < l then 1 else 0)"

definition spec_same_string :: "string \<Rightarrow> string \<Rightarrow> bool" where
  "spec_same_string first second = (spec_tolower first = spec_tolower second)"

fun split_acc :: "string \<Rightarrow> string \<Rightarrow> string \<Rightarrow> string list" where
  "split_acc separators piece [] = [piece]"
| "split_acc separators piece (c # cs) =
     (if c \<in> set separators then piece # split_acc separators [] cs
      else split_acc separators (piece @ [c]) cs)"

definition spec_split_by_set :: "string \<Rightarrow> string \<Rightarrow> string list" where
  "spec_split_by_set s separators = (if s = [] then [] else split_acc separators [] s)"

definition spec_base :: base_lib where
  "spec_base =
     \<lparr>unquote = spec_unquote,
      tolower = spec_tolower,
      string_compare = spec_string_compare,
      same_string = spec_same_string,
      split_by_set = spec_split_by_set\<rparr>"

subsection \<open>A lexer and token streams\<close>

text \<open>
  A numbering of the token names (the generated header's values are not part of the files
  verified here; any numbering without repetitions serves). Type 100 is an identifier, 101
  to 103 are the keywords SELECT, FROM and WHERE, 110 is white space on the hidden channel.
\<close>

definition symbolOrder :: "MySQLLexerSymbol list" where
  "symbolOrder =
     [DOT_SYMBOL, OPEN_PAR_SYMBOL, NOT_SYMBOL, NOT2_SYMBOL, CHAR_SYMBOL, NOW_SYMBOL, DAY_SYMBOL,
      DECIMAL_SYMBOL, DISTINCT_SYMBOL, COLUMNS_SYMBOL, FLOAT_SYMBOL, DOUBLE_SYMBOL, INT_SYMBOL,
      RELAY_THREAD_SYMBOL, SUBSTRING_SYMBOL, MID_SYMBOL, MEDIUMINT_SYMBOL, NDBCLUSTER_SYMBOL,
      REGEXP_SYMBOL, DATABASE_SYMBOL, DATABASES_SYMBOL, USER_SYMBOL, STD_SYMBOL, VARCHAR_SYMBOL,
      VARIANCE_SYMBOL, TINYINT_SYMBOL, SMALLINT_SYMBOL, BIGINT_SYMBOL, FRAC_SECOND_SYMBOL,
      SECOND_SYMBOL, MINUTE_SYMBOL, HOUR_SYMBOL, WEEK_SYMBOL, MONTH_SYMBOL, QUARTER_SYMBOL,
      YEAR_SYMBOL]"

fun positionIn :: "'a list \<Rightarrow> 'a \<Rightarrow> nat" where
  "positionIn [] y = 0"
| "positionIn (x # xs) y = (if x = y then 0 else Suc (positionIn xs y))"

definition exampleTokenId :: "MySQLLexerSymbol \<Rightarrow> int" where
  "exampleTokenId symbol = int (Suc (positionIn symbolOrder symbol))"

definition exampleLexer :: MySQLLexer where
  "exampleLexer =
     \<lparr>tokenId = exampleTokenId, isIdentifier = (\<lambda>t. t = 100), determineQueryType = QtUnknown\<rparr>"

definition mkToken :: "int \<Rightarrow> string \<Rightarrow> nat \<Rightarrow> nat \<Rightarrow> Token" where
  "mkToken type text channel column =
     \<lparr>tType = type, tText = text, tChannel = channel, tLine = 1, tColumn = column\<rparr>"

definition exampleDisplayName :: "int \<Rightarrow> string" where
  "exampleDisplayName t =
     (if t = exampleTokenId NOT_SYMBOL then ''NOT_SYMBOL''
      else if t = exampleTokenId NOT2_SYMBOL then ''NOT2_SYMBOL''
      else if t = exampleTokenId NOW_SYMBOL then ''NOW_SYMBOL''
      else if t = exampleTokenId OPEN_PAR_SYMBOL then [CHR 0x27, CHR ''('', CHR 0x27]
      else if t = 101 then ''SELECT_SYMBOL''
      else if t = 102 then ''FROM_SYMBOL''
      else if t = 103 then ''WHERE_SYMBOL''
      else ''IDENTIFIER'')"

text \<open>The token stream of \<^verbatim>\<open>SELECT s.t. FROM t1\<close>, ended by EOF.\<close>

definition exampleTokens :: "Token list" where
  "exampleTokens =
     [mkToken 101 ''SELECT'' 0 0, mkToken 110 '' '' 1 6, mkToken 100 ''s'' 0 7,
      mkToken (exampleTokenId DOT_SYMBOL) ''.'' 0 8, mkToken 100 ''`t`'' 0 9,
      mkToken (exampleTokenId DOT_SYMBOL) ''.'' 0 12, mkToken 110 '' '' 1 13,
      mkToken 102 ''FROM'' 0 14, mkToken 110 '' '' 1 18, mkToken 100 ''t1'' 0 19,
      mkToken EOF ''<EOF>'' 0 21]"

definition scannerAt :: "Token list \<Rightarrow> nat \<Rightarrow> Scanner" where
  "scannerAt ts i = \<lparr>scTokens = ts, scIndex = i, scStack = []\<rparr>"

subsection \<open>A cache and parsers\<close>

definition exampleCache :: MySQLObjectNamesCache where
  "exampleCache =
     \<lparr>getMatchingSchemaNames = (\<lambda>p. [''s'']),
      getMatchingTableNames = (\<lambda>sch p. if sch = ''s'' then [''t1'', ''t2''] else []),
      getMatchingViewNames = (\<lambda>sch p. if sch = ''s'' then [''v1''] else []),
      getMatchingColumnNames =
        (\<lambda>sch tab p. if sch = ''s'' \<and> tab = ''t1'' then [''a'', ''b'']
                     else if sch = ''s'' \<and> tab = ''t2'' then [''c''] else []),
      getMatchingUdfNames = (\<lambda>p. []),
      getMatchingFunctionNames = (\<lambda>sch p. if sch = ''s'' then [''f''] else []),
      getMatchingProcedureNames = (\<lambda>sch p. if sch = ''s'' then [''f''] else []),
      getMatchingTriggerNames = (\<lambda>sch tab p. []),
      getMatchingEngines = (\<lambda>p. [''InnoDB'']),
      getMatchingLogfileGroups = (\<lambda>p. []),
      getMatchingTablespaces = (\<lambda>p. []),
      getMatchingVariables = (\<lambda>p. []),
      getMatchingCharsets = (\<lambda>p. [''utf8'']),
      getMatchingCollations = (\<lambda>p. []),
      getMatchingEvents = (\<lambda>sch p. [])\<rparr>"

text \<open>A parser over a token stream whose candidate engine reports the given collection.\<close>

definition exampleParser :: "Token list \<Rightarrow> CandidatesCollection \<Rightarrow> MySQLParser" where
  "exampleParser ts candidates =
     \<lparr>getTokenStream = ts,
      getDisplayName = exampleDisplayName,
      getTokenSource = exampleLexer,
      c3_collectCandidates = (\<lambda>caret. candidates)\<rparr>"

text \<open>The token streams of \<^verbatim>\<open>SELECT NOW\<close> and of \<^verbatim>\<open>SELECT  FROM t1\<close>.\<close>

definition selectNowTokens :: "Token list" where
  "selectNowTokens =
     [mkToken 101 ''SELECT'' 0 0, mkToken 110 '' '' 1 6,
      mkToken (exampleTokenId NOW_SYMBOL) ''NOW'' 0 7, mkToken EOF ''<EOF>'' 0 10]"

definition selectFromTokens :: "Token list" where
  "selectFromTokens =
     [mkToken 101 ''SELECT'' 0 0, mkToken 110 '' '' 1 6, mkToken 110 '' '' 1 7,
      mkToken 102 ''FROM'' 0 8, mkToken 110 '' '' 1 12, mkToken 100 ''t1'' 0 13,
      mkToken EOF ''<EOF>'' 0 15]"


definition routineParser :: MySQLParser where
  "routineParser = exampleParser selectNowTokens
     \<lparr>tokens = [(exampleTokenId NOW_SYMBOL, [])],
      rules = [(RuleFunctionRef, []), (RuleProcedureRef, [])]\<rparr>"



text \<open>The token stream of \<^verbatim>\<open>SELECT s..c\<close>, ended by EOF.\<close>

definition doubleDotTokens :: "Token list" where
  "doubleDotTokens =
     [mkToken 101 ''SELECT'' 0 0, mkToken 110 '' '' 1 6, mkToken 100 ''s'' 0 7,
      mkToken (exampleTokenId DOT_SYMBOL) ''.'' 0 8, mkToken (exampleTokenId DOT_SYMBOL) ''.'' 0 9,
      mkToken 100 ''c'' 0 10, mkToken EOF ''<EOF>'' 0 11]"

section \<open>Token layouts left of the caret\<close>

text \<open>
  The situations of the emission table, as layouts of the token stream. \<open>follows ts i j\<close>:
  \<open>i\<close> and \<open>j\<close> are tokens of the default channel with only hidden tokens between them.
  \<open>caretBetween ts i p c\<close>: the caret index \<open>p\<close> lies behind token \<open>i\<close> and at or before \<open>c\<close>,
  the next token of the default channel (the token the analysis starts from).
\<close>

definition visibleAt :: "Token list \<Rightarrow> nat \<Rightarrow> bool" where
  "visibleAt ts i = (i < length ts \<and> tChannel (tokenAt ts i) = 0)"

definition hiddenBetween :: "Token list \<Rightarrow> nat \<Rightarrow> nat \<Rightarrow> bool" where
  "hiddenBetween ts i j = list_all (\<lambda>k. tChannel (tokenAt ts k) \<noteq> 0) [Suc i..<j]"

definition follows :: "Token list \<Rightarrow> nat \<Rightarrow> nat \<Rightarrow> bool" where
  "follows ts i j = (i < j \<and> visibleAt ts i \<and> visibleAt ts j \<and> hiddenBetween ts i j)"

definition caretBetween :: "Token list \<Rightarrow> nat \<Rightarrow> nat \<Rightarrow> nat \<Rightarrow> bool" where
  "caretBetween ts i p c = (follows ts i c \<and> i < p \<and> p \<le> c)"

text \<open>
  Left of the caret lies nothing of a qualified identifier (token \<open>y\<close> is neither identifier
  nor dot); a single identifier \<open>i\<close>, not preceded by a dot; the sequence identifier \<open>i\<close>, dot
  \<open>j\<close>, not preceded by a dot; the sequence identifier \<open>i\<close>, dot \<open>j\<close>, identifier \<open>k\<close>, dot
  \<open>l\<close>. The layouts say nothing about the token \<open>c\<close> the caret stands on or before.
\<close>

definition nothingLeft :: "MySQLLexer \<Rightarrow> Token list \<Rightarrow> nat \<Rightarrow> nat \<Rightarrow> nat \<Rightarrow> bool" where
  "nothingLeft lexer ts p y c =
     (caretBetween ts y p c
      \<and> \<not> isIdentifier lexer (tType (tokenAt ts y))
      \<and> tType (tokenAt ts y) \<noteq> tokenId lexer DOT_SYMBOL)"

definition singleIdLeft :: "MySQLLexer \<Rightarrow> Token list \<Rightarrow> nat \<Rightarrow> nat \<Rightarrow> nat \<Rightarrow> bool" where
  "singleIdLeft lexer ts p i c =
     (caretBetween ts i p c
      \<and> isIdentifier lexer (tType (tokenAt ts i))
      \<and> lookBackFrom ts i \<noteq> tokenId lexer DOT_SYMBOL)"

definition idDotLeft :: "MySQLLexer \<Rightarrow> Token list \<Rightarrow> nat \<Rightarrow> nat \<Rightarrow> nat \<Rightarrow> nat \<Rightarrow> bool" where
  "idDotLeft lexer ts p i j c =
     (follows ts i j \<and> caretBetween ts j p c
      \<and> isIdentifier lexer (tType (tokenAt ts i))
      \<and> tType (tokenAt ts j) = tokenId lexer DOT_SYMBOL
      \<and> lookBackFrom ts i \<noteq> tokenId lexer DOT_SYMBOL)"

definition idDotIdDotLeft ::
  "MySQLLexer \<Rightarrow> Token list \<Rightarrow> nat \<Rightarrow> nat \<Rightarrow> nat \<Rightarrow> nat \<Rightarrow> nat \<Rightarrow> nat \<Rightarrow> bool" where
  "idDotIdDotLeft lexer ts p i j k l c =
     (follows ts i j \<and> follows ts j k \<and> follows ts k l \<and> caretBetween ts l p c
      \<and> isIdentifier lexer (tType (tokenAt ts i))
      \<and> tType (tokenAt ts j) = tokenId lexer DOT_SYMBOL
      \<and> isIdentifier lexer (tType (tokenAt ts k))
      \<and> tType (tokenAt ts l) = tokenId lexer DOT_SYMBOL)"

section \<open>Kinds of the completion sets\<close>



section \<open>Properties of the qualifier analysis\<close>

text \<open>
  C10. The result of \<^verbatim>\<open>determineQualifier\<close> does not depend on its \<^verbatim>\<open>offsetInLine\<close>
  argument: for every scanner state and lexer, any two values of the argument give the same
  flags, the same qualifier and the same scanner position.
\<close>

theorem determineQualifier_ignores_offsetInLine:
  "determineQualifier base lexer scanner offsetInLine1 =
   determineQualifier base lexer scanner offsetInLine2"
  by (simp add: determineQualifier_def)

text \<open>On \<^verbatim>\<open>SELECT s.`t`. FROM t1\<close> with the caret on \<^verbatim>\<open>`t`\<close>, for the offsets 0 and 7.\<close>

theorem determineQualifier_ignores_offsetInLine_witness:
  "determineQualifier spec_base exampleLexer (scannerAt exampleTokens 4) 0 =
     (16, ''s'', scannerAt exampleTokens 3)
   \<and> determineQualifier spec_base exampleLexer (scannerAt exampleTokens 4) 7 =
     (16, ''s'', scannerAt exampleTokens 3)"
proof -
  have same: "determineQualifier spec_base exampleLexer (scannerAt exampleTokens 4) 0 =
              determineQualifier spec_base exampleLexer (scannerAt exampleTokens 4) 7"
    by (rule determineQualifier_ignores_offsetInLine)
  have run: "determineQualifier spec_base exampleLexer (scannerAt exampleTokens 4) 7 =
             (16, ''s'', scannerAt exampleTokens 3)"
    by code_simp
  from same run show ?thesis by simp
qed

text \<open>
  C7. In \<^verbatim>\<open>determineQualifier\<close>, once the scanner stands on the leading identifier and its
  unquoted text has been read: if the token after that identifier is not a dot, or the scanner
  index has reached or passed the saved caret index, the function returns
  \<open>ShowFirst | ShowSecond\<close> with an empty qualifier; otherwise it returns \<open>ShowSecond\<close> with
  the qualifier equal to the leading identifier's unquoted text.
\<close>

theorem determineQualifier_emission:
  assumes "isIdentifier lexer (tokenType (seekQualifierStart lexer (tokenIndex scanner) scanner))"
  shows "determineQualifier base lexer scanner offsetInLine =
    (let lead = seekQualifierStart lexer (tokenIndex scanner) scanner;
         after = scanner_next True lead
     in if \<not> scanner_is after (tokenId lexer DOT_SYMBOL) \<or> tokenIndex scanner \<le> tokenIndex after
        then (ShowFirst OR ShowSecond, [], after)
        else (ShowSecond, unquote base (tokenText lead), after))"
  using assms by (simp add: determineQualifier_def Let_def)

text \<open>
  On \<^verbatim>\<open>SELECT s.`t`. FROM t1\<close>: with the caret on \<^verbatim>\<open>`t`\<close> the qualifier is \<^verbatim>\<open>s\<close>; with
  the caret on \<^verbatim>\<open>s\<close> the scanner reaches the caret and the qualifier is empty.
\<close>

theorem determineQualifier_emission_witness:
  "isIdentifier exampleLexer
     (tokenType (seekQualifierStart exampleLexer (tokenIndex (scannerAt exampleTokens 4))
        (scannerAt exampleTokens 4)))
   \<and> determineQualifier spec_base exampleLexer (scannerAt exampleTokens 4) 9 =
       (ShowSecond, ''s'', scannerAt exampleTokens 3)
   \<and> isIdentifier exampleLexer
       (tokenType (seekQualifierStart exampleLexer (tokenIndex (scannerAt exampleTokens 2))
          (scannerAt exampleTokens 2)))
   \<and> determineQualifier spec_base exampleLexer (scannerAt exampleTokens 2) 7 =
       (ShowFirst OR ShowSecond, [], scannerAt exampleTokens 3)"
proof -
  have lead4: "isIdentifier exampleLexer
     (tokenType (seekQualifierStart exampleLexer (tokenIndex (scannerAt exampleTokens 4))
        (scannerAt exampleTokens 4)))"
    by code_simp
  have lead2: "isIdentifier exampleLexer
     (tokenType (seekQualifierStart exampleLexer (tokenIndex (scannerAt exampleTokens 2))
        (scannerAt exampleTokens 2)))"
    by code_simp
  note at4 = determineQualifier_emission [OF lead4, of spec_base 9]
  note at2 = determineQualifier_emission [OF lead2, of spec_base 7]
  have value4:
    "(let lead = seekQualifierStart exampleLexer (tokenIndex (scannerAt exampleTokens 4))
                   (scannerAt exampleTokens 4);
          after = scanner_next True lead
      in if \<not> scanner_is after (tokenId exampleLexer DOT_SYMBOL)
            \<or> tokenIndex (scannerAt exampleTokens 4) \<le> tokenIndex after
         then (ShowFirst OR ShowSecond, [], after)
         else (ShowSecond, unquote spec_base (tokenText lead), after)) =
     (ShowSecond, ''s'', scannerAt exampleTokens 3)"
    by code_simp
  have value2:
    "(let lead = seekQualifierStart exampleLexer (tokenIndex (scannerAt exampleTokens 2))
                   (scannerAt exampleTokens 2);
          after = scanner_next True lead
      in if \<not> scanner_is after (tokenId exampleLexer DOT_SYMBOL)
            \<or> tokenIndex (scannerAt exampleTokens 2) \<le> tokenIndex after
         then (ShowFirst OR ShowSecond, [], after)
         else (ShowSecond, unquote spec_base (tokenText lead), after)) =
     (ShowFirst OR ShowSecond, [], scannerAt exampleTokens 3)"
    by code_simp
  from lead4 lead2 at4 at2 value4 value2 show ?thesis by simp
qed

section \<open>Properties of the candidate collection\<close>

lemma fold_push_back:
  "fold (\<lambda>entry c'. c'\<lparr>references := references c' @ [entry]\<rparr>) level c =
   c\<lparr>references := references c @ level\<rparr>"
  by (induction level arbitrary: c) simp_all

lemma takeReferencesSnapshot_eq:
  "takeReferencesSnapshot context =
   context\<lparr>references := references context @ concat (referencesStack context)\<rparr>"
proof -
  have "fold (\<lambda>level c. c\<lparr>references := references c @ level\<rparr>) stack c =
        c\<lparr>references := references c @ concat stack\<rparr>" for stack and c :: AutoCompletionContext
    by (induction stack arbitrary: c) simp_all
  then show ?thesis
    by (simp add: takeReferencesSnapshot_def fold_push_back)
qed

lemma collect_loop_references:
  "concat (referencesStack c) = [] \<Longrightarrow>
   references (fold (\<lambda>ruleEntry c.
                 if fst ruleEntry = RuleColumnRef
                 then takeReferencesSnapshot (collectRemainingTableReferences c)
                 else c) rs c) = references c"
  by (induction rs arbitrary: c)
     (simp_all add: takeReferencesSnapshot_eq collectRemainingTableReferences_def)

text \<open>
  C2. The claim: whenever the rule candidates contain a column reference, the engine scans
  the tokens after the caret for FROM clauses and appends the table references found there to
  the flat references list. The code does not: \<^verbatim>\<open>collectRemainingTableReferences\<close> has an
  empty body, and the stack that the snapshot copies holds one empty level. Whatever the
  token stream and the candidates, the references list of a fresh context stays empty.
\<close>

theorem collectCandidates_references_stay_empty:
  "references (collectCandidates parser caret newContext) = []"
  by (simp add: collectCandidates_def Let_def collect_loop_references newContext_def)





section \<open>Properties of the result assembly\<close>

text \<open>
  C1. The claim: for a token candidate with synonyms, such as NOW, the list holds one keyword
  entry per alternative spelling besides the keyword itself. The code builds the table and
  never reads it: for \<^verbatim>\<open>SELECT NOW\<close> with the candidate NOW the list is the single entry
  \<^verbatim>\<open>now\<close>, although the table maps NOW to three spellings.
\<close>

theorem getCodeCompletionList_without_synonyms:
  "getCodeCompletionList spec_base 0 10 ''s'' False
     (exampleParser selectNowTokens
        \<lparr>tokens = [(exampleTokenId NOW_SYMBOL, [])], rules = []\<rparr>) [] exampleCache =
     [(AC_KEYWORD_IMAGE, ''now'')]
   \<and> map_find (synonyms exampleLexer) (exampleTokenId NOW_SYMBOL) =
     Some [''CURRENT_TIMESTAMP'', ''LOCALTIME'', ''LOCALTIMESTAMP'']"
  by code_simp

section \<open>The emission table of determineSchemaTableQualifier\<close>

lemma nextIndex_skips:
  assumes "q < j" and "j < length ts" and "tChannel (tokenAt ts j) = 0"
    and "\<forall>k. q < k \<and> k < j \<longrightarrow> tChannel (tokenAt ts k) \<noteq> 0"
  shows "nextIndex ts True q = j"
  using assms
proof (induction "j - q" arbitrary: q)
  case 0
  then show ?case by simp
next
  case (Suc n)
  show ?case
  proof (cases "Suc q = j")
    case True
    with Suc.prems show ?thesis by (simp add: nextIndex.simps [of ts True q])
  next
    case False
    with Suc.prems have lt: "Suc q < j" by simp
    with Suc.prems have hid: "tChannel (tokenAt ts (Suc q)) \<noteq> 0" by simp
    have "nextIndex ts True (Suc q) = j"
      using Suc.hyps(2) Suc.prems lt by (intro Suc.hyps(1)) auto
    with lt hid Suc.prems show ?thesis by (simp add: nextIndex.simps [of ts True q])
  qed
qed

lemma previousIndex_skips:
  assumes "i < j" and "tChannel (tokenAt ts i) = 0"
    and "\<forall>k. i < k \<and> k < j \<longrightarrow> tChannel (tokenAt ts k) \<noteq> 0"
  shows "previousIndex ts True j = i"
  using assms
proof (induction j)
  case 0
  then show ?case by simp
next
  case (Suc j)
  show ?case
  proof (cases "i = j")
    case True
    with Suc.prems show ?thesis by simp
  next
    case False
    with Suc.prems have "i < j" by simp
    moreover from this Suc.prems have "tChannel (tokenAt ts j) \<noteq> 0" by simp
    ultimately show ?thesis using Suc by simp
  qed
qed

lemma lookBackFrom_skips:
  assumes "i < j" and "tChannel (tokenAt ts i) = 0"
    and "\<forall>k. i < k \<and> k < j \<longrightarrow> tChannel (tokenAt ts k) \<noteq> 0"
  shows "lookBackFrom ts j = tType (tokenAt ts i)"
  using assms
proof (induction j)
  case 0
  then show ?case by simp
next
  case (Suc j)
  show ?case
  proof (cases "i = j")
    case True
    with Suc.prems show ?thesis by simp
  next
    case False
    with Suc.prems have lt: "i < j" by simp
    from lt Suc.prems have hid: "tChannel (tokenAt ts j) \<noteq> 0" by simp
    from Suc.prems have "\<forall>k. i < k \<and> k < j \<longrightarrow> tChannel (tokenAt ts k) \<noteq> 0" by simp
    with lt Suc.prems(2) have "lookBackFrom ts j = tType (tokenAt ts i)" by (rule Suc.IH)
    with hid show ?thesis by simp
  qed
qed

lemma hiddenBetween_iff:
  "hiddenBetween ts i j = (\<forall>k. i < k \<and> k < j \<longrightarrow> tChannel (tokenAt ts k) \<noteq> 0)"
  by (auto simp: hiddenBetween_def list_all_iff)

lemma follows_next: "follows ts i j \<Longrightarrow> nextIndex ts True i = j"
  by (rule nextIndex_skips) (auto simp: follows_def visibleAt_def hiddenBetween_iff)

lemma follows_previous: "follows ts i j \<Longrightarrow> previousIndex ts True j = i"
  by (rule previousIndex_skips) (auto simp: follows_def visibleAt_def hiddenBetween_iff)

lemma follows_lookBack: "follows ts i j \<Longrightarrow> lookBackFrom ts j = tType (tokenAt ts i)"
  by (rule lookBackFrom_skips) (auto simp: follows_def visibleAt_def hiddenBetween_iff)

lemma nextIndex_ge: "i \<le> nextIndex ts b i"
proof (induction ts b i rule: nextIndex.induct)
  case (1 ts skipHidden i)
  then show ?case by (subst nextIndex.simps) auto
qed

lemma caret_enter:
  assumes "caretBetween (scTokens sc) i (scIndex sc) c"
  shows "(if tokenChannel sc \<noteq> 0 then scanner_next True sc else sc) = sc\<lparr>scIndex := c\<rparr>"
proof (cases "scIndex sc = c")
  case True
  with assms show ?thesis
    by (auto simp: caretBetween_def follows_def visibleAt_def tokenChannel_def)
next
  case False
  with assms have lt: "scIndex sc < c" by (simp add: caretBetween_def)
  with assms have hid: "tChannel (tokenAt (scTokens sc) (scIndex sc)) \<noteq> 0"
    by (auto simp: caretBetween_def follows_def hiddenBetween_iff)
  have "nextIndex (scTokens sc) True (scIndex sc) = c"
    using assms lt
    by (intro nextIndex_skips) (auto simp: caretBetween_def follows_def visibleAt_def hiddenBetween_iff)
  with hid show ?thesis by (simp add: tokenChannel_def scanner_next_def)
qed

lemmas scanner_simps = tokenIndex_def tokenType_def tokenText_def tokenChannel_def
  scanner_is_def scanner_next_def scanner_previous_def lookBack_def

lemma idDot_case:
  assumes nd: "\<not> isIdentifier lexer (tokenId lexer DOT_SYMBOL)"
    and lay: "idDotLeft lexer (scTokens sc) (scIndex sc) i j c"
    and nc: "tType (tokenAt (scTokens sc) c) \<noteq> tokenId lexer DOT_SYMBOL"
  shows "determineSchemaTableQualifier base lexer sc =
     (ShowTables OR ShowColumns, unquote base (tText (tokenAt (scTokens sc) i)),
      unquote base (tText (tokenAt (scTokens sc) i)),
      sc\<lparr>scIndex := (if isIdentifier lexer (tType (tokenAt (scTokens sc) c))
                       then nextIndex (scTokens sc) True c else c)\<rparr>)"
proof -
  let ?ts = "scTokens sc"
  from lay have fij: "follows ?ts i j" and cb: "caretBetween ?ts j (scIndex sc) c"
    and idi: "isIdentifier lexer (tType (tokenAt ?ts i))"
    and dj: "tType (tokenAt ?ts j) = tokenId lexer DOT_SYMBOL"
    and lbi: "lookBackFrom ?ts i \<noteq> tokenId lexer DOT_SYMBOL"
    by (simp_all add: idDotLeft_def)
  from cb have fjc: "follows ?ts j c" and jp: "j < scIndex sc" and pc: "scIndex sc \<le> c"
    by (simp_all add: caretBetween_def)
  note enter = caret_enter [OF cb]
  note mv = follows_next [OF fij] follows_previous [OF fij] follows_lookBack [OF fij]
    follows_next [OF fjc] follows_previous [OF fjc] follows_lookBack [OF fjc]
  have ndj: "\<not> isIdentifier lexer (tType (tokenAt ?ts j))" using nd dj by simp
  have pos: "0 < scIndex sc" using jp by simp
  have ge: "c \<le> nextIndex ?ts True c" by (rule nextIndex_ge)
  have seek: "seekSchemaTableStart lexer (scIndex sc) sc = sc\<lparr>scIndex := i\<rparr>"
    unfolding seekSchemaTableStart_def Let_def enter
    using idi dj nc lbi ndj pos
    by (simp add: scanner_simps mv)
  show ?thesis
    unfolding determineSchemaTableQualifier_def Let_def tokenIndex_def seek
    using idi dj nc ndj jp pc ge
    by (simp add: scanner_simps mv)
qed

lemma idDotIdDot_case:
  assumes nd: "\<not> isIdentifier lexer (tokenId lexer DOT_SYMBOL)"
    and lay: "idDotIdDotLeft lexer (scTokens sc) (scIndex sc) i j k l c"
    and nc: "tType (tokenAt (scTokens sc) c) \<noteq> tokenId lexer DOT_SYMBOL"
  shows "determineSchemaTableQualifier base lexer sc =
     (ShowColumns, unquote base (tText (tokenAt (scTokens sc) i)),
      unquote base (tText (tokenAt (scTokens sc) k)), sc\<lparr>scIndex := l\<rparr>)"
proof -
  let ?ts = "scTokens sc"
  from lay have fij: "follows ?ts i j" and fjk: "follows ?ts j k" and fkl: "follows ?ts k l"
    and cb: "caretBetween ?ts l (scIndex sc) c"
    and idi: "isIdentifier lexer (tType (tokenAt ?ts i))"
    and dj: "tType (tokenAt ?ts j) = tokenId lexer DOT_SYMBOL"
    and idk: "isIdentifier lexer (tType (tokenAt ?ts k))"
    and dl: "tType (tokenAt ?ts l) = tokenId lexer DOT_SYMBOL"
    by (simp_all add: idDotIdDotLeft_def)
  from cb have flc: "follows ?ts l c" and lp: "l < scIndex sc" and pc: "scIndex sc \<le> c"
    by (simp_all add: caretBetween_def)
  from fij fjk fkl have ord: "i < j" "j < k" "k < l" by (simp_all add: follows_def)
  note enter = caret_enter [OF cb]
  note mv = follows_next [OF fij] follows_previous [OF fij] follows_lookBack [OF fij]
    follows_next [OF fjk] follows_previous [OF fjk] follows_lookBack [OF fjk]
    follows_next [OF fkl] follows_previous [OF fkl] follows_lookBack [OF fkl]
    follows_next [OF flc] follows_previous [OF flc] follows_lookBack [OF flc]
  have ndj: "\<not> isIdentifier lexer (tType (tokenAt ?ts j))" using nd dj by simp
  have ndl: "\<not> isIdentifier lexer (tType (tokenAt ?ts l))" using nd dl by simp
  have pos: "0 < scIndex sc" using lp by simp
  have seek: "seekSchemaTableStart lexer (scIndex sc) sc = sc\<lparr>scIndex := i\<rparr>"
    unfolding seekSchemaTableStart_def Let_def enter
    using idi dj idk dl nc ndj ndl pos
    by (simp add: scanner_simps mv)
  show ?thesis
    unfolding determineSchemaTableQualifier_def Let_def tokenIndex_def seek
    using idi dj idk dl nc ndj ndl lp pc ord
    by (simp add: scanner_simps mv)
qed

lemma nothingLeft_case:
  assumes nd: "\<not> isIdentifier lexer (tokenId lexer DOT_SYMBOL)"
    and lay: "nothingLeft lexer (scTokens sc) (scIndex sc) y c"
  shows "fst (determineSchemaTableQualifier base lexer sc) = ShowSchemas OR ShowTables OR ShowColumns
    \<and> fst (snd (determineSchemaTableQualifier base lexer sc)) = []
    \<and> fst (snd (snd (determineSchemaTableQualifier base lexer sc))) = []"
proof -
  let ?ts = "scTokens sc"
  from lay have cb: "caretBetween ?ts y (scIndex sc) c"
    and niy: "\<not> isIdentifier lexer (tType (tokenAt ?ts y))"
    and ndy: "tType (tokenAt ?ts y) \<noteq> tokenId lexer DOT_SYMBOL"
    by (simp_all add: nothingLeft_def)
  from cb have fyc: "follows ?ts y c" and yp: "y < scIndex sc" and pc: "scIndex sc \<le> c"
    by (simp_all add: caretBetween_def)
  note enter = caret_enter [OF cb]
  note mv = follows_next [OF fyc] follows_previous [OF fyc] follows_lookBack [OF fyc]
  have pos: "0 < scIndex sc" using yp by simp
  have ge: "scIndex sc \<le> nextIndex ?ts True c"
    using pc nextIndex_ge [of c ?ts True] by simp
  show ?thesis
    unfolding determineSchemaTableQualifier_def seekSchemaTableStart_def Let_def tokenIndex_def enter
    using nd niy ndy pos pc ge
    by (auto simp: scanner_simps mv)
qed

lemma singleIdLeft_case:
  assumes nd: "\<not> isIdentifier lexer (tokenId lexer DOT_SYMBOL)"
    and lay: "singleIdLeft lexer (scTokens sc) (scIndex sc) i c"
  shows "fst (determineSchemaTableQualifier base lexer sc) = ShowSchemas OR ShowTables OR ShowColumns
    \<and> fst (snd (determineSchemaTableQualifier base lexer sc)) = []
    \<and> fst (snd (snd (determineSchemaTableQualifier base lexer sc))) = []"
proof -
  let ?ts = "scTokens sc"
  from lay have cb: "caretBetween ?ts i (scIndex sc) c"
    and idi: "isIdentifier lexer (tType (tokenAt ?ts i))"
    and lbi: "lookBackFrom ?ts i \<noteq> tokenId lexer DOT_SYMBOL"
    by (simp_all add: singleIdLeft_def)
  from cb have fic: "follows ?ts i c" and ip: "i < scIndex sc" and pc: "scIndex sc \<le> c"
    by (simp_all add: caretBetween_def)
  note enter = caret_enter [OF cb]
  note mv = follows_next [OF fic] follows_previous [OF fic] follows_lookBack [OF fic]
  have ndi: "tType (tokenAt ?ts i) \<noteq> tokenId lexer DOT_SYMBOL" using nd idi by auto
  have pos: "0 < scIndex sc" using ip by simp
  have ge: "scIndex sc \<le> nextIndex ?ts True c"
    using pc nextIndex_ge [of c ?ts True] by simp
  show ?thesis
    unfolding determineSchemaTableQualifier_def seekSchemaTableStart_def Let_def tokenIndex_def enter
    using nd idi lbi ndi pos pc ge
    by (auto simp: scanner_simps mv)
qed

lemma caret_at_start_case:
  assumes "scIndex sc = 0"
  shows "fst (determineSchemaTableQualifier base lexer sc) = ShowSchemas OR ShowTables OR ShowColumns
    \<and> fst (snd (determineSchemaTableQualifier base lexer sc)) = []
    \<and> fst (snd (snd (determineSchemaTableQualifier base lexer sc))) = []"
  using assms
  by (simp add: determineSchemaTableQualifier_def Let_def tokenIndex_def split: prod.splits)

text \<open>
  C6 (as the code has it). \<^verbatim>\<open>determineSchemaTableQualifier\<close> implements the emission table:
  with nothing or only a single identifier left of the caret it returns
  \<open>ShowSchemas | ShowTables | ShowColumns\<close> with empty schema and table; with \<^verbatim>\<open>id .\<close> left of
  the caret, and the token at the caret not itself a dot, it returns \<open>ShowTables | ShowColumns\<close>
  with schema and table both the identifier's unquoted text; with \<^verbatim>\<open>id . id .\<close> left of the
  caret, and the token at the caret not itself a dot, it returns \<open>ShowColumns\<close> with the first
  identifier as schema and the second as table. (A dot is not an identifier for the lexer.)
\<close>

theorem determineSchemaTableQualifier_emission_table:
  assumes nd: "\<not> isIdentifier lexer (tokenId lexer DOT_SYMBOL)"
  shows "let result = determineSchemaTableQualifier base lexer scanner;
             ts = scTokens scanner;
             p = scIndex scanner
         in (p = 0 \<or> nothingLeft lexer ts p y c \<or> singleIdLeft lexer ts p i c \<longrightarrow>
               fst result = ShowSchemas OR ShowTables OR ShowColumns
             \<and> fst (snd result) = [] \<and> fst (snd (snd result)) = [])
          \<and> (idDotLeft lexer ts p i j c
               \<and> tType (tokenAt ts c) \<noteq> tokenId lexer DOT_SYMBOL \<longrightarrow>
               fst result = ShowTables OR ShowColumns
             \<and> fst (snd result) = unquote base (tText (tokenAt ts i))
             \<and> fst (snd (snd result)) = unquote base (tText (tokenAt ts i)))
          \<and> (idDotIdDotLeft lexer ts p i j k l c
               \<and> tType (tokenAt ts c) \<noteq> tokenId lexer DOT_SYMBOL \<longrightarrow>
               fst result = ShowColumns
             \<and> fst (snd result) = unquote base (tText (tokenAt ts i))
             \<and> fst (snd (snd result)) = unquote base (tText (tokenAt ts k)))"
  unfolding Let_def
  using caret_at_start_case [of scanner base lexer]
    nothingLeft_case [OF nd, of scanner y c base]
    singleIdLeft_case [OF nd, of scanner i c base]
    idDot_case [OF nd, of scanner i j c base]
    idDotIdDot_case [OF nd, of scanner i j k l c base]
  by auto

text \<open>
  C6 as stated fails: in \<^verbatim>\<open>SELECT s..c\<close> with the caret on the second dot, \<^verbatim>\<open>s .\<close> lies left
  of the caret, and the function returns all three flags with empty schema and table. The
  backward walk starts on the dot at the caret, finds a dot and no identifier before it, and
  stays; the forward walk then stops at once.
\<close>

theorem determineSchemaTableQualifier_caret_on_dot:
  "idDotLeft exampleLexer doubleDotTokens 4 2 3 4
   \<and> determineSchemaTableQualifier spec_base exampleLexer (scannerAt doubleDotTokens 4) =
       (ShowSchemas OR ShowTables OR ShowColumns, [], [], scannerAt doubleDotTokens 4)"
  by code_simp

text \<open>
  On \<^verbatim>\<open>SELECT s.`t`. FROM t1\<close>, with the caret on \<^verbatim>\<open>s\<close>, on the first dot, on \<^verbatim>\<open>`t`\<close> and
  behind the second dot.
\<close>

theorem determineSchemaTableQualifier_emission_table_witness:
  "\<not> isIdentifier exampleLexer (tokenId exampleLexer DOT_SYMBOL)
   \<and> nothingLeft exampleLexer exampleTokens 2 0 2
   \<and> determineSchemaTableQualifier spec_base exampleLexer (scannerAt exampleTokens 2) =
       (ShowSchemas OR ShowTables OR ShowColumns, [], [], scannerAt exampleTokens 3)
   \<and> singleIdLeft exampleLexer exampleTokens 3 2 3
   \<and> determineSchemaTableQualifier spec_base exampleLexer (scannerAt exampleTokens 3) =
       (ShowSchemas OR ShowTables OR ShowColumns, [], [], scannerAt exampleTokens 3)
   \<and> idDotLeft exampleLexer exampleTokens 4 2 3 4
   \<and> tType (tokenAt exampleTokens 4) \<noteq> tokenId exampleLexer DOT_SYMBOL
   \<and> determineSchemaTableQualifier spec_base exampleLexer (scannerAt exampleTokens 4) =
       (ShowTables OR ShowColumns, ''s'', ''s'', scannerAt exampleTokens 5)
   \<and> idDotIdDotLeft exampleLexer exampleTokens 6 2 3 4 5 7
   \<and> tType (tokenAt exampleTokens 7) \<noteq> tokenId exampleLexer DOT_SYMBOL
   \<and> determineSchemaTableQualifier spec_base exampleLexer (scannerAt exampleTokens 6) =
       (ShowColumns, ''s'', ''t'', scannerAt exampleTokens 5)"
proof -
  have nd: "\<not> isIdentifier exampleLexer (tokenId exampleLexer DOT_SYMBOL)" by code_simp
  have l1: "nothingLeft exampleLexer (scTokens (scannerAt exampleTokens 2))
      (scIndex (scannerAt exampleTokens 2)) 0 2" by code_simp
  have l2: "singleIdLeft exampleLexer (scTokens (scannerAt exampleTokens 3))
      (scIndex (scannerAt exampleTokens 3)) 2 3" by code_simp
  have l3: "idDotLeft exampleLexer (scTokens (scannerAt exampleTokens 4))
      (scIndex (scannerAt exampleTokens 4)) 2 3 4" by code_simp
  have n3: "tType (tokenAt (scTokens (scannerAt exampleTokens 4)) 4) \<noteq>
      tokenId exampleLexer DOT_SYMBOL" by code_simp
  have l4: "idDotIdDotLeft exampleLexer (scTokens (scannerAt exampleTokens 6))
      (scIndex (scannerAt exampleTokens 6)) 2 3 4 5 7" by code_simp
  have n4: "tType (tokenAt (scTokens (scannerAt exampleTokens 6)) 7) \<noteq>
      tokenId exampleLexer DOT_SYMBOL" by code_simp
  have sel: "scTokens (scannerAt exampleTokens n) = exampleTokens"
    "scIndex (scannerAt exampleTokens n) = n" for n
    by (simp_all add: scannerAt_def)
  have tx: "unquote spec_base (tText (tokenAt exampleTokens 2)) = ''s''"
    "unquote spec_base (tText (tokenAt exampleTokens 4)) = ''t''"
    by code_simp+
  note t1 = determineSchemaTableQualifier_emission_table [OF nd, of spec_base "scannerAt exampleTokens 2" 0 2 0 0 0 0, unfolded Let_def]
  note t2 = determineSchemaTableQualifier_emission_table [OF nd, of spec_base "scannerAt exampleTokens 3" 0 3 2 0 0 0, unfolded Let_def]
  note t3 = determineSchemaTableQualifier_emission_table [OF nd, of spec_base "scannerAt exampleTokens 4" 0 4 2 3 0 0, unfolded Let_def]
  note t4 = determineSchemaTableQualifier_emission_table [OF nd, of spec_base "scannerAt exampleTokens 6" 0 7 2 3 4 5, unfolded Let_def]
  have s2: "snd (snd (snd (determineSchemaTableQualifier spec_base exampleLexer
      (scannerAt exampleTokens 2)))) = scannerAt exampleTokens 3"
    and s3: "snd (snd (snd (determineSchemaTableQualifier spec_base exampleLexer
      (scannerAt exampleTokens 3)))) = scannerAt exampleTokens 3"
    and s4: "snd (snd (snd (determineSchemaTableQualifier spec_base exampleLexer
      (scannerAt exampleTokens 4)))) = scannerAt exampleTokens 5"
    and s6: "snd (snd (snd (determineSchemaTableQualifier spec_base exampleLexer
      (scannerAt exampleTokens 6)))) = scannerAt exampleTokens 5"
    by code_simp+
  have r1: "determineSchemaTableQualifier spec_base exampleLexer (scannerAt exampleTokens 2) =
       (ShowSchemas OR ShowTables OR ShowColumns, [], [], scannerAt exampleTokens 3)"
    using t1 l1 s2 by (simp add: prod_eq_iff)
  have r2: "determineSchemaTableQualifier spec_base exampleLexer (scannerAt exampleTokens 3) =
       (ShowSchemas OR ShowTables OR ShowColumns, [], [], scannerAt exampleTokens 3)"
    using t2 l2 s3 by (simp add: prod_eq_iff)
  have r3: "determineSchemaTableQualifier spec_base exampleLexer (scannerAt exampleTokens 4) =
       (ShowTables OR ShowColumns, ''s'', ''s'', scannerAt exampleTokens 5)"
    using t3 l3 n3 s4 tx by (simp add: prod_eq_iff sel)
  have r4: "determineSchemaTableQualifier spec_base exampleLexer (scannerAt exampleTokens 6) =
       (ShowColumns, ''s'', ''t'', scannerAt exampleTokens 5)"
    using t4 l4 n4 s6 tx by (simp add: prod_eq_iff sel)
  from nd l1 l2 l3 n3 l4 n4 r1 r2 r3 r4 show ?thesis by (simp add: sel)
qed

subsection \<open>The tables of a column reference\<close>







subsection \<open>Properties kept by every insertion\<close>

lemmas handler_defs = onRuntimeFunctionCall_def onFunctionRef_def onEngineRef_def onSchemaRef_def
  onProcedureRef_def onTableRefWithWildcard_def onTableRef_def onColumnRef_def onTriggerRef_def
  onViewRef_def onLogfileGroupRef_def onTablespaceRef_def onUserVariable_def onLabelRef_def
  onSystemVariable_def onCharsetName_def onCollationName_def onEventRef_def

lemma fold_insert_closed:
  assumes "\<And>e S. fst e \<noteq> AC_KEYWORD_IMAGE \<Longrightarrow> P S \<Longrightarrow> P (CompletionSet_insert base e S)"
    and "k \<noteq> AC_KEYWORD_IMAGE" and "P S"
  shows "P (fold (\<lambda>x s. CompletionSet_insert base (k, f x) s) xs S)"
  using assms(3) by (induction xs arbitrary: S) (simp_all add: assms(1) assms(2))

lemma fold_cond_insert_closed:
  assumes "\<And>e S. fst e \<noteq> AC_KEYWORD_IMAGE \<Longrightarrow> P S \<Longrightarrow> P (CompletionSet_insert base e S)"
    and "k \<noteq> AC_KEYWORD_IMAGE" and "P S"
  shows "P (fold (\<lambda>x s. if c x then CompletionSet_insert base (k, f x) s else s) xs S)"
  using assms(3) by (induction xs arbitrary: S) (simp_all add: assms(1) assms(2))

lemma fold_fold_insert_closed:
  assumes "\<And>e S. fst e \<noteq> AC_KEYWORD_IMAGE \<Longrightarrow> P S \<Longrightarrow> P (CompletionSet_insert base e S)"
    and "k \<noteq> AC_KEYWORD_IMAGE" and "P S"
  shows "P (fold (\<lambda>y s. fold (\<lambda>x s'. CompletionSet_insert base (k, f x) s') (h y) s) ys S)"
  using assms(3)
  by (induction ys arbitrary: S)
     (simp_all add: fold_insert_closed [where P = P and base = base, OF assms(1) assms(2)])

lemma insertSchemas_closed:
  assumes "\<And>e S. fst e \<noteq> AC_KEYWORD_IMAGE \<Longrightarrow> P S \<Longrightarrow> P (CompletionSet_insert base e S)"
    and "P S"
  shows "P (insertSchemas base cache S typedPart)"
  unfolding insertSchemas_def
  using fold_insert_closed [where P = P and base = base and k = AC_SCHEMA_IMAGE and f = "\<lambda>x. x",
      OF assms(1) _ assms(2)]
  by simp

lemma insertTables_closed:
  assumes "\<And>e S. fst e \<noteq> AC_KEYWORD_IMAGE \<Longrightarrow> P S \<Longrightarrow> P (CompletionSet_insert base e S)"
    and "P S"
  shows "P (insertTables base cache S schemas typedPart)"
  unfolding insertTables_def
  using fold_fold_insert_closed [where P = P and base = base and k = AC_TABLE_IMAGE
      and f = "\<lambda>x. x", OF assms(1) _ assms(2)]
  by simp

lemma insertViews_closed:
  assumes "\<And>e S. fst e \<noteq> AC_KEYWORD_IMAGE \<Longrightarrow> P S \<Longrightarrow> P (CompletionSet_insert base e S)"
    and "P S"
  shows "P (insertViews base cache S schemas typedPart)"
  unfolding insertViews_def
  using fold_fold_insert_closed [where P = P and base = base and k = AC_VIEW_IMAGE
      and f = "\<lambda>x. x", OF assms(1) _ assms(2)]
  by simp

lemma insertColumns_closed:
  assumes "\<And>e S. fst e \<noteq> AC_KEYWORD_IMAGE \<Longrightarrow> P S \<Longrightarrow> P (CompletionSet_insert base e S)"
    and "P S"
  shows "P (insertColumns base cache S schemas tables typedPart)"
proof -
  have inner: "P (fold (\<lambda>table s'.
                     fold (\<lambda>column s''. CompletionSet_insert base (AC_COLUMN_IMAGE, column) s'')
                       (getMatchingColumnNames cache a table typedPart) s') ts S')"
    if "P S'" for a ts S'
    using fold_fold_insert_closed [where P = P and base = base and k = AC_COLUMN_IMAGE
      and f = "\<lambda>x. x" and S = S'
      and h = "\<lambda>table. getMatchingColumnNames cache a table typedPart", OF assms(1) _ that]
    by simp
  show ?thesis
    unfolding insertColumns_def using assms(2)
    by (induction schemas arbitrary: S) (simp_all add: inner)
qed

lemma showColumnsBlock_closed:
  assumes "\<And>e S. fst e \<noteq> AC_KEYWORD_IMAGE \<Longrightarrow> P S \<Longrightarrow> P (CompletionSet_insert base e S)"
    and "P S"
  shows "P (showColumnsBlock base cache defaultSchema queryType refs rule schema' table' schemas S)"
  by (simp add: showColumnsBlock_def Let_def
      insertColumns_closed [where P = P and base = base, OF assms(1)] assms(2))

lemma processRule_otherSets:
  assumes closed: "\<And>e S. fst e \<noteq> AC_KEYWORD_IMAGE \<Longrightarrow> P S \<Longrightarrow> P (CompletionSet_insert base e S)"
    and inv: "list_all P (otherSets (snd st))"
  shows "list_all P (otherSets (snd (processRule base lexer cache defaultSchema functionNames
      caretOffset queryType refs candidate st)))"
proof -
  have f1: "\<And>k f xs S. k \<noteq> AC_KEYWORD_IMAGE \<Longrightarrow> P S \<Longrightarrow>
      P (fold (\<lambda>x s. CompletionSet_insert base (k, f x) s) xs S)"
    by (rule fold_insert_closed [where P = P and base = base, OF closed])
  have f2: "\<And>k f c xs S. k \<noteq> AC_KEYWORD_IMAGE \<Longrightarrow> P S \<Longrightarrow>
      P (fold (\<lambda>x s. if c x then CompletionSet_insert base (k, f x) s else s) xs S)"
    by (rule fold_cond_insert_closed [where P = P and base = base, OF closed])
  have i1: "\<And>S tp. P S \<Longrightarrow> P (insertSchemas base cache S tp)"
    by (rule insertSchemas_closed [where P = P and base = base, OF closed])
  have i2: "\<And>S ss tp. P S \<Longrightarrow> P (insertTables base cache S ss tp)"
    by (rule insertTables_closed [where P = P and base = base, OF closed])
  have i3: "\<And>S ss tp. P S \<Longrightarrow> P (insertViews base cache S ss tp)"
    by (rule insertViews_closed [where P = P and base = base, OF closed])
  have i4: "\<And>S ds qt rs r sc tb ss. P S \<Longrightarrow> P (showColumnsBlock base cache ds qt rs r sc tb ss S)"
    by (rule showColumnsBlock_closed [where P = P and base = base, OF closed])
  have i5: "\<And>k x S. k \<noteq> AC_KEYWORD_IMAGE \<Longrightarrow> P S \<Longrightarrow> P (CompletionSet_insert base (k, x) S)"
    by (rule closed) simp_all
  show ?thesis
    using inv
    by (simp add: processRule_def handler_defs Let_def otherSets_def f1 f2 i1 i2 i3 i4 i5
        split: prod.splits)
qed


subsection \<open>Order and duplicates in the completion sets\<close>

lemma set_CompletionSet_insert: "set (CompletionSet_insert base e S) \<subseteq> insert e (set S)"
  by (induction S) auto


lemma sorted_CompletionSet_insert:
  assumes trans: "\<And>a b c. string_compare base a b False < 0 \<Longrightarrow>
      string_compare base b c False < 0 \<Longrightarrow> string_compare base a c False < 0"
    and sorted: "sorted_wrt (CompareAcEntries base) S"
  shows "sorted_wrt (CompareAcEntries base) (CompletionSet_insert base e S)"
  using sorted
proof (induction S)
  case Nil
  then show ?case by simp
next
  case (Cons x xs)
  have below: "CompareAcEntries base e y" if "CompareAcEntries base e x" and "y \<in> set xs" for y
    using that Cons.prems trans [of "snd e" "snd x" "snd y"]
    by (auto simp: CompareAcEntries_def)
  have rest: "CompareAcEntries base x y" if "CompareAcEntries base x e"
    and "y \<in> set (CompletionSet_insert base e xs)" for y
    using that Cons.prems set_CompletionSet_insert [of base e xs] by auto
  from Cons show ?case
    by (auto simp: below rest)
qed

lemma processRule_keywordEntries:
  "keywordEntries (snd (processRule base lexer cache defaultSchema functionNames caretOffset
      queryType refs candidate st)) = keywordEntries (snd st)"
  by (simp add: processRule_def handler_defs Let_def split: prod.splits)

lemma fold_processRule_keywordEntries:
  "keywordEntries (snd (fold (processRule base lexer cache defaultSchema functionNames caretOffset
      queryType refs) rs st)) = keywordEntries (snd st)"
  by (induction rs arbitrary: st) (simp_all add: processRule_keywordEntries)

lemma fold_processRule_otherSets:
  assumes closed: "\<And>e S. fst e \<noteq> AC_KEYWORD_IMAGE \<Longrightarrow> P S \<Longrightarrow> P (CompletionSet_insert base e S)"
    and inv: "list_all P (otherSets (snd st))"
  shows "list_all P (otherSets (snd (fold (processRule base lexer cache defaultSchema
      functionNames caretOffset queryType refs) rs st)))"
  using inv
  by (induction rs arbitrary: st)
     (simp_all add: processRule_otherSets [where P = P and base = base, OF closed])

lemma processToken_otherSets:
  assumes closed: "\<And>e S. fst e \<noteq> AC_KEYWORD_IMAGE \<Longrightarrow> P S \<Longrightarrow> P (CompletionSet_insert base e S)"
    and inv: "list_all P (otherSets sets)"
  shows "list_all P (otherSets (processToken base parser uppercaseKeywords candidate sets))"
  using inv by (simp add: processToken_def otherSets_def closed split: prod.splits)

lemma fold_processToken_otherSets:
  assumes closed: "\<And>e S. fst e \<noteq> AC_KEYWORD_IMAGE \<Longrightarrow> P S \<Longrightarrow> P (CompletionSet_insert base e S)"
    and inv: "list_all P (otherSets sets)"
  shows "list_all P (otherSets (fold (processToken base parser uppercaseKeywords) cs sets))"
  using inv
  by (induction cs arbitrary: sets)
     (simp_all add: processToken_otherSets [where P = P and base = base, OF closed])

lemma fold_processToken_keyword_sorted:
  assumes trans: "\<And>a b c. string_compare base a b False < 0 \<Longrightarrow>
      string_compare base b c False < 0 \<Longrightarrow> string_compare base a c False < 0"
    and sorted: "sorted_wrt (CompareAcEntries base) (keywordEntries sets)"
  shows "sorted_wrt (CompareAcEntries base)
           (keywordEntries (fold (processToken base parser uppercaseKeywords) cs sets))"
  using sorted
proof (induction cs arbitrary: sets)
  case Nil
  then show ?case by simp
next
  case (Cons c cs)
  have "sorted_wrt (CompareAcEntries base)
          (keywordEntries (processToken base parser uppercaseKeywords c sets))"
    using Cons.prems sorted_CompletionSet_insert [where base = base, OF trans]
    by (simp add: processToken_def split: prod.splits)
  then show ?case by (simp add: Cons.IH)
qed

lemma fillCompletionSets_unfold:
  "fillCompletionSets base caretLine caretOffset defaultSchema uppercaseKeywords parser
     functionNames cache =
   (let context = collectCandidates parser (caretOffset, caretLine + 1) newContext
    in snd (fold (processRule base (getTokenSource parser) cache defaultSchema functionNames
                    caretOffset (determineQueryType (getTokenSource parser)) (references context))
              (rules (completionCandidates context))
              (push (advanceToPosition (caretLine + 1) caretOffset
                       (newScanner (getTokenStream parser))),
               fold (processToken base parser uppercaseKeywords)
                 (tokens (completionCandidates context)) emptySets)))"
  by (simp add: fillCompletionSets_def Let_def)

lemma spec_compare_less:
  "(string_compare spec_base a b False < 0) = (spec_tolower a < spec_tolower b)"
  by (simp add: spec_base_def spec_string_compare_def Let_def)

lemma spec_compare_trans:
  "string_compare spec_base a b False < 0 \<Longrightarrow> string_compare spec_base b c False < 0 \<Longrightarrow>
   string_compare spec_base a c False < 0"
  unfolding spec_compare_less by (rule less_trans)

text \<open>
  C3 (as the code has it). Every completion set is ordered by text alone, case-insensitively:
  the comparator never looks at the kind. So in each set that \<^verbatim>\<open>getCodeCompletionList\<close>
  fills, an entry compares smaller by text than every entry after it, and no two entries of a
  set have case-insensitively equal text, whatever their kinds. (The comparison of the base
  library is taken to be transitive.)
\<close>

theorem completion_sets_sorted_by_text:
  assumes trans: "\<And>a b c. string_compare base a b False < 0 \<Longrightarrow>
      string_compare base b c False < 0 \<Longrightarrow> string_compare base a c False < 0"
  shows "list_all (sorted_wrt (\<lambda>a b. string_compare base (snd a) (snd b) False < 0))
           (keywordEntries (fillCompletionSets base caretLine caretOffset defaultSchema
                uppercaseKeywords parser functionNames cache)
            # otherSets (fillCompletionSets base caretLine caretOffset defaultSchema
                uppercaseKeywords parser functionNames cache))"
proof -
  have eq: "(\<lambda>a b. string_compare base (snd a) (snd b) False < 0) = CompareAcEntries base"
    by (simp add: CompareAcEntries_def fun_eq_iff)
  have closed: "\<And>e S. fst e \<noteq> AC_KEYWORD_IMAGE \<Longrightarrow> sorted_wrt (CompareAcEntries base) S \<Longrightarrow>
      sorted_wrt (CompareAcEntries base) (CompletionSet_insert base e S)"
    by (rule sorted_CompletionSet_insert [where base = base, OF trans])
  have e0: "sorted_wrt (CompareAcEntries base) (keywordEntries emptySets)"
    "list_all (sorted_wrt (CompareAcEntries base)) (otherSets emptySets)"
    by (simp_all add: emptySets_def otherSets_def)
  show ?thesis
    unfolding eq fillCompletionSets_unfold Let_def
    using fold_processToken_keyword_sorted [where base = base, OF trans e0(1)]
      fold_processRule_otherSets [where P = "sorted_wrt (CompareAcEntries base)" and base = base,
        OF closed]
      fold_processToken_otherSets [where P = "sorted_wrt (CompareAcEntries base)" and base = base,
        OF closed e0(2)]
    by (simp add: fold_processRule_keywordEntries)
qed

text \<open>
  C3 as stated fails: a schema and a table with the same text are not ordered by kind, the
  second one is dropped on insertion although its kind differs, and the returned list can hold
  the same kind and text twice (a function and a procedure of the same name).
\<close>

theorem CompareAcEntries_ignores_kind:
  "\<not> CompareAcEntries spec_base (AC_SCHEMA_IMAGE, ''t'') (AC_TABLE_IMAGE, ''t'')
   \<and> \<not> CompareAcEntries spec_base (AC_TABLE_IMAGE, ''t'') (AC_SCHEMA_IMAGE, ''t'')
   \<and> CompletionSet_insert spec_base (AC_TABLE_IMAGE, ''t'') [(AC_SCHEMA_IMAGE, ''t'')] =
       [(AC_SCHEMA_IMAGE, ''t'')]
   \<and> getCodeCompletionList spec_base 0 10 ''s'' False routineParser [] exampleCache =
       [(AC_KEYWORD_IMAGE, ''now''), (AC_SCHEMA_IMAGE, ''s''), (AC_ROUTINE_IMAGE, ''f''),
        (AC_ROUTINE_IMAGE, ''f'')]"
  by code_simp

text \<open>The sets filled for \<^verbatim>\<open>SELECT NOW\<close> with a function and a procedure rule candidate.\<close>

theorem completion_sets_sorted_by_text_witness:
  "list_all (sorted_wrt (\<lambda>a b. string_compare spec_base (snd a) (snd b) False < 0))
     (keywordEntries (fillCompletionSets spec_base 0 10 ''s'' False routineParser [] exampleCache)
      # otherSets (fillCompletionSets spec_base 0 10 ''s'' False routineParser [] exampleCache))
   \<and> keywordEntries (fillCompletionSets spec_base 0 10 ''s'' False routineParser [] exampleCache) =
       [(AC_KEYWORD_IMAGE, ''now'')]
   \<and> functionEntries (fillCompletionSets spec_base 0 10 ''s'' False routineParser [] exampleCache) =
       [(AC_ROUTINE_IMAGE, ''f'')]"
proof -
  have sorted: "list_all (sorted_wrt (\<lambda>a b. string_compare spec_base (snd a) (snd b) False < 0))
     (keywordEntries (fillCompletionSets spec_base 0 10 ''s'' False routineParser [] exampleCache)
      # otherSets (fillCompletionSets spec_base 0 10 ''s'' False routineParser [] exampleCache))"
    by (rule completion_sets_sorted_by_text) (rule spec_compare_trans)
  have run: "keywordEntries (fillCompletionSets spec_base 0 10 ''s'' False routineParser [] exampleCache) =
       [(AC_KEYWORD_IMAGE, ''now'')]
   \<and> functionEntries (fillCompletionSets spec_base 0 10 ''s'' False routineParser [] exampleCache) =
       [(AC_ROUTINE_IMAGE, ''f'')]"
    by code_simp
  from sorted run show ?thesis by blast
qed


subsection \<open>The secondary NOT token\<close>


























subsection \<open>The kinds of the emitted sets\<close>





































end
